theory Spec2Isabelle
  imports Main "HOL-Library.Sublist" "HOL-Library.Word"
begin

section \<open>Go runtime: panics, slices, time\<close>

text \<open>
  A Go panic is a value of type \<open>panic\<close>; a function of the source that can panic returns
  \<open>panic + 'a\<close>, with \<open>Inl\<close> for the panic. The integer types \<open>int\<close> and \<open>int64\<close> of the
  source are modelled as \<open>int\<close> wherever the source only stores, compares or prints them;
  the one counter the source increments is a 64-bit word.
\<close>

datatype panic =
    NilDereference
  | IndexOutOfRange
  | MakesliceCapOutOfRange
  | NilMapAssignment
  | IntnInvalidArgument

definition andThen :: "panic + 'a \<Rightarrow> ('a \<Rightarrow> panic + 'b) \<Rightarrow> panic + 'b" where
  "andThen r f = (case r of Inl p \<Rightarrow> Inl p | Inr x \<Rightarrow> f x)"

text \<open>Dereferencing a pointer: \<open>None\<close> is the nil pointer.\<close>

definition deref :: "'a option \<Rightarrow> panic + 'a" where
  "deref p = (case p of None \<Rightarrow> Inl NilDereference | Some x \<Rightarrow> Inr x)"

text \<open>
  A slice that the source compares with nil is an optional list: \<open>None\<close> is the nil slice,
  \<open>Some []\<close> an empty slice that is not nil. \<open>len\<close> of both is 0.
\<close>

definition len :: "'a list option \<Rightarrow> int" where
  "len s = (case s of None \<Rightarrow> 0 | Some xs \<Rightarrow> int (length xs))"

definition elems :: "'a list option \<Rightarrow> 'a list" where
  "elems s = (case s of None \<Rightarrow> [] | Some xs \<Rightarrow> xs)"

definition index :: "'a list \<Rightarrow> int \<Rightarrow> panic + 'a" where
  "index xs i = (if 0 \<le> i \<and> i < int (length xs) then Inr (xs ! nat i) else Inl IndexOutOfRange)"

text \<open>
  \<open>make([]T, 0, cap)\<close> panics on a negative capacity, and on a capacity whose elements do
  not fit the allocation limit of the runtime (makeslice: cap out of range). \<open>maxCap\<close> is
  the largest capacity for which \<open>make\<close> returns a slice of the element type: it depends on
  the platform and on the size of an element, and is a parameter.
\<close>

definition make_slice :: "int \<Rightarrow> int \<Rightarrow> panic + 'a list" where
  "make_slice maxCap cap =
     (if cap < 0 \<or> maxCap < cap then Inl MakesliceCapOutOfRange else Inr [])"

text \<open>
  A map of the source is an optional partial function: \<open>None\<close> is the nil map of a zero
  value. Reading a nil map finds no entry; assigning to one panics.
\<close>

definition map_lookup :: "('k \<rightharpoonup> 'v) option \<Rightarrow> 'k \<Rightarrow> 'v option" where
  "map_lookup m k = (case m of None \<Rightarrow> None | Some f \<Rightarrow> f k)"

definition map_assign :: "('k \<rightharpoonup> 'v) option \<Rightarrow> 'k \<Rightarrow> 'v \<Rightarrow> panic + ('k \<rightharpoonup> 'v) option" where
  "map_assign m k v = (case m of None \<Rightarrow> Inl NilMapAssignment | Some f \<Rightarrow> Inr (Some (f(k \<mapsto> v))))"

text \<open>
  \<open>time.Time\<close>: the zero value \<open>time.Time{}\<close>, and \<open>time.Unix(sec, 0)\<close>, which carries the
  local location and so is never the zero value.
\<close>

datatype go_time = TimeZero | TimeUnix int

text \<open>
  \<open>rand.Intn(n)\<close> of math/rand: panics unless \<open>0 < n\<close>, and else returns a number of
  \<open>[0, n)\<close> that the generator chooses; \<open>draw\<close> is the generator's raw output.
\<close>

definition rand_Intn :: "int \<Rightarrow> int \<Rightarrow> panic + int" where
  "rand_Intn draw n = (if n \<le> 0 then Inl IntnInvalidArgument else Inr (draw mod n))"

section \<open>Package bot: the internal message and the response\<close>

text \<open>
  Modelled from the spec: the declarations of \<open>bot.User\<close>, \<open>bot.SenderChat\<close>, \<open>bot.Entity\<close>,
  \<open>bot.Image\<close>, \<open>bot.Message\<close> and \<open>bot.Response\<close> are not among the source files. The
  fields are those the listener and the history read and assign, with the types their use
  fixes (section 3 of the specification lists the same attributes).
\<close>

record bot_User =
  User_ID :: int
  User_Username :: string
  User_DisplayName :: string

record bot_SenderChat =
  SenderChat_ID :: int
  SenderChat_UserName :: string

record bot_Entity =
  Entity_Type :: string
  Entity_Offset :: int
  Entity_Length :: int
  Entity_URL :: string
  Entity_User :: "bot_User option"

record bot_Image =
  Image_FileID :: string
  Image_Width :: int
  Image_Height :: int
  Image_Caption :: string
  Image_Entities :: "bot_Entity list option"

record bot_ReplyTo =
  ReplyTo_From :: bot_User
  ReplyTo_Text :: string
  ReplyTo_Sent :: go_time
  ReplyTo_SenderChat :: bot_SenderChat

record bot_Message =
  Message_ID :: int
  Message_From :: bot_User
  Message_ChatID :: string
  Message_SenderChat :: bot_SenderChat
  Message_Sent :: go_time
  Message_Text :: string
  Message_Entities :: "bot_Entity list option"
  Message_Image :: "bot_Image option"
  Message_ReplyTo :: bot_ReplyTo

record bot_Response =
  Response_Text :: string
  Response_Send :: bool
  Response_Pin :: bool
  Response_Preview :: bool
  Response_User :: bot_User
  Response_ChannelID :: int
  Response_ReplyTo :: int
  Response_ParseMode :: string

text \<open>The zero values of the structs.\<close>

definition User_zero :: bot_User where
  "User_zero = \<lparr>User_ID = 0, User_Username = [], User_DisplayName = []\<rparr>"

definition SenderChat_zero :: bot_SenderChat where
  "SenderChat_zero = \<lparr>SenderChat_ID = 0, SenderChat_UserName = []\<rparr>"

definition ReplyTo_zero :: bot_ReplyTo where
  "ReplyTo_zero = \<lparr>ReplyTo_From = User_zero, ReplyTo_Text = [], ReplyTo_Sent = TimeZero,
     ReplyTo_SenderChat = SenderChat_zero\<rparr>"

definition Message_zero :: bot_Message where
  "Message_zero = \<lparr>Message_ID = 0, Message_From = User_zero, Message_ChatID = [],
     Message_SenderChat = SenderChat_zero, Message_Sent = TimeZero, Message_Text = [],
     Message_Entities = None, Message_Image = None, Message_ReplyTo = ReplyTo_zero\<rparr>"

section \<open>The bounded history, single-sequence variant\<close>

record LimitedMessageHistory_single =
  single_limit :: int
  single_count :: "64 word"
  single_messages :: "bot_Message list"

definition NewLimitedMessageHistory_single :: "int \<Rightarrow> int \<Rightarrow> panic + LimitedMessageHistory_single" where
  "NewLimitedMessageHistory_single maxCap limit =
     andThen (make_slice maxCap limit) (\<lambda>msgs.
       Inr \<lparr>single_limit = limit, single_count = 0, single_messages = msgs\<rparr>)"

text \<open>
  After the append the slice holds at least one message, so the reslice \<open>[1:]\<close> is within
  bounds; it is \<open>drop 1\<close>.
\<close>

definition Add_single :: "LimitedMessageHistory_single \<Rightarrow> bot_Message \<Rightarrow> LimitedMessageHistory_single" where
  "Add_single l message =
     (let l = l\<lparr>single_count := single_count l + 1\<rparr>;
          l = l\<lparr>single_messages := single_messages l @ [message]\<rparr>
      in if int (length (single_messages l)) > single_limit l
         then l\<lparr>single_messages := drop 1 (single_messages l)\<rparr>
         else l)"

text \<open>
  The generator that the function creates from the clock is discarded, and the index comes
  from the global generator. The result is the pointer \<open>&l.messages[randomIndex]\<close>, read
  here as the message it points to.
\<close>

definition GetRandomMessage_single :: "int \<Rightarrow> LimitedMessageHistory_single \<Rightarrow> panic + bot_Message option" where
  "GetRandomMessage_single draw l =
     (if length (single_messages l) = 0 then Inr None
      else andThen (rand_Intn draw (int (length (single_messages l)))) (\<lambda>randomIndex.
           andThen (index (single_messages l) randomIndex) (\<lambda>m. Inr (Some m))))"

section \<open>The bounded history, per-conversation variant\<close>

record ChatHistory =
  ChatHistory_count :: "64 word"
  ChatHistory_messages :: "bot_Message list"

record LimitedMessageHistory =
  limit :: int
  chats :: "(string \<rightharpoonup> ChatHistory) option"

definition NewLimitedMessageHistory :: "int \<Rightarrow> LimitedMessageHistory" where
  "NewLimitedMessageHistory lim = \<lparr>limit = lim, chats = Some Map.empty\<rparr>"

text \<open>
  The map holds pointers to the chat histories. \<open>Add\<close> looks the history of the chat up, or
  makes a new one and assigns it to the map, and then mutates it through the pointer: the
  entry of the map is the updated history.
\<close>

definition Add :: "int \<Rightarrow> LimitedMessageHistory \<Rightarrow> bot_Message \<Rightarrow> panic + LimitedMessageHistory" where
  "Add maxCap l message =
     andThen
       (case map_lookup (chats l) (Message_ChatID message) of
          Some chatHistory \<Rightarrow> Inr (chatHistory, l)
        | None \<Rightarrow> andThen (make_slice maxCap (limit l)) (\<lambda>msgs.
            let chatHistory = \<lparr>ChatHistory_count = 0, ChatHistory_messages = msgs\<rparr>
            in andThen (map_assign (chats l) (Message_ChatID message) chatHistory) (\<lambda>cs.
                 Inr (chatHistory, l\<lparr>chats := cs\<rparr>))))
       (\<lambda>(chatHistory, l).
          let chatHistory = chatHistory\<lparr>ChatHistory_count := ChatHistory_count chatHistory + 1\<rparr>;
              chatHistory = chatHistory\<lparr>ChatHistory_messages :=
                ChatHistory_messages chatHistory @ [message]\<rparr>;
              chatHistory =
                (if int (length (ChatHistory_messages chatHistory)) > limit l
                 then chatHistory\<lparr>ChatHistory_messages := drop 1 (ChatHistory_messages chatHistory)\<rparr>
                 else chatHistory)
          in Inr (l\<lparr>chats := map_option (\<lambda>f. f(Message_ChatID message \<mapsto> chatHistory)) (chats l)\<rparr>))"

definition GetRandomMessage :: "int \<Rightarrow> LimitedMessageHistory \<Rightarrow> string \<Rightarrow> panic + bot_Message option" where
  "GetRandomMessage draw l chatID =
     (case map_lookup (chats l) chatID of
        None \<Rightarrow> Inr None
      | Some chatHistory \<Rightarrow>
          if length (ChatHistory_messages chatHistory) = 0 then Inr None
          else andThen (rand_Intn draw (int (length (ChatHistory_messages chatHistory)))) (\<lambda>randomIndex.
               andThen (index (ChatHistory_messages chatHistory) randomIndex) (\<lambda>m. Inr (Some m))))"

definition GetMessagesByChatID :: "LimitedMessageHistory \<Rightarrow> string \<Rightarrow> bot_Message list option" where
  "GetMessagesByChatID l chatID =
     (case map_lookup (chats l) chatID of
        None \<Rightarrow> None
      | Some chatHistory \<Rightarrow> Some (ChatHistory_messages chatHistory))"

text \<open>A sequence of insertions, one at a time, stopping at the first panic.\<close>

fun AddAll :: "int \<Rightarrow> LimitedMessageHistory \<Rightarrow> bot_Message list \<Rightarrow> panic + LimitedMessageHistory" where
  "AddAll maxCap l [] = Inr l"
| "AddAll maxCap l (m # ms) = andThen (Add maxCap l m) (\<lambda>l'. AddAll maxCap l' ms)"

fun AddAll_single :: "LimitedMessageHistory_single \<Rightarrow> bot_Message list \<Rightarrow> LimitedMessageHistory_single" where
  "AddAll_single l [] = l"
| "AddAll_single l (m # ms) = AddAll_single (Add_single l m) ms"


section \<open>Go library functions the listener calls\<close>

text \<open>\<open>strings.Contains(s, substr)\<close>: \<open>substr\<close> occurs in \<open>s\<close> as a contiguous run of bytes.\<close>

definition Contains :: "string \<Rightarrow> string \<Rightarrow> bool" where
  "Contains s substr = sublist substr s"

text \<open>\<open>strconv.Itoa\<close>: the decimal digits, with a minus sign for a negative number.\<close>

fun digits :: "nat \<Rightarrow> string" where
  "digits n = (if n < 10 then [char_of (48 + n)] else digits (n div 10) @ [char_of (48 + n mod 10)])"

declare digits.simps [simp del]

definition Itoa :: "int \<Rightarrow> string" where
  "Itoa i = (if i < 0 then CHR ''-'' # digits (nat (- i)) else digits (nat i))"

text \<open>
  \<open>strconv.ParseInt(s, 10, 64)\<close>: an optional sign, then one or more decimal digits, and a
  value within the range of \<open>int64\<close>; \<open>None\<close> stands for every error it returns.
\<close>

definition digit_of :: "char \<Rightarrow> nat option" where
  "digit_of c = (let n = (of_char c :: nat) in if 48 \<le> n \<and> n \<le> 57 then Some (n - 48) else None)"

fun parse_digits :: "string \<Rightarrow> nat \<Rightarrow> nat option" where
  "parse_digits [] acc = Some acc"
| "parse_digits (c # cs) acc =
     (case digit_of c of None \<Rightarrow> None | Some d \<Rightarrow> parse_digits cs (10 * acc + d))"

definition ParseInt :: "string \<Rightarrow> int option" where
  "ParseInt s =
     (let neg = (case s of c # _ \<Rightarrow> c = CHR ''-'' | [] \<Rightarrow> False);
          ds = (case s of c # cs \<Rightarrow> if c = CHR ''-'' \<or> c = CHR ''+'' then cs else s | [] \<Rightarrow> [])
      in if ds = [] then None
         else case parse_digits ds 0 of
                None \<Rightarrow> None
              | Some n \<Rightarrow>
                  let v = (if neg then - int n else int n)
                  in if - (2 ^ 63) \<le> v \<and> v < 2 ^ 63 then Some v else None)"

text \<open>
  Modelled from the spec: \<open>fmt.Sprintf("%v", x)\<close> on a \<open>bot.User\<close> and on a
  \<open>bot.SenderChat\<close>, whose declarations are not among the source files; the specification
  calls it the generic default formatting of a struct, which prints the fields in braces,
  separated by spaces.
\<close>

definition Sprintf_User :: "bot_User \<Rightarrow> string" where
  "Sprintf_User u = ''{'' @ Itoa (User_ID u) @ '' '' @ User_Username u @ '' '' @ User_DisplayName u @ ''}''"

definition Sprintf_SenderChat :: "bot_SenderChat \<Rightarrow> string" where
  "Sprintf_SenderChat c = ''{'' @ Itoa (SenderChat_ID c) @ '' '' @ SenderChat_UserName c @ ''}''"

section \<open>The wire types of the transport library\<close>

text \<open>
  The types of the Telegram library, with the fields the listener reads. A pointer field is
  an option, a slice field an optional list; \<open>Chat\<close> is a struct value, not a pointer.
\<close>

record tb_User =
  tbUser_ID :: int
  tbUser_FirstName :: string
  tbUser_LastName :: string
  tbUser_UserName :: string

record tb_Chat =
  Chat_ID :: int
  Chat_Type :: string
  Chat_UserName :: string

record tb_MessageEntity =
  MessageEntity_Type :: string
  MessageEntity_Offset :: int
  MessageEntity_Length :: int
  MessageEntity_URL :: string
  MessageEntity_User :: "tb_User option"

record tb_PhotoSize =
  PhotoSize_FileID :: string
  PhotoSize_Width :: int
  PhotoSize_Height :: int

datatype tb_Message = Message
  (tb_MessageID: int)
  (tb_MessageThreadID: int)
  (tb_From: "tb_User option")
  (tb_SenderChat: "tb_Chat option")
  (tb_Date: int)
  (tb_Chat: tb_Chat)
  (tb_ReplyToMessage: "tb_Message option")
  (tb_Text: string)
  (tb_Entities: "tb_MessageEntity list option")
  (tb_Photo: "tb_PhotoSize list option")
  (tb_Caption: string)
  (tb_CaptionEntities: "tb_MessageEntity list option")

text \<open>\<open>Message.Time()\<close> of the library is \<open>time.Unix(int64(m.Date), 0)\<close>.\<close>

definition tb_Time :: "tb_Message \<Rightarrow> go_time" where
  "tb_Time m = TimeUnix (tb_Date m)"

record tb_Update =
  Update_Message :: "tb_Message option"

record tb_MessageConfig =
  MessageConfig_ChatID :: int
  MessageConfig_Text :: string
  MessageConfig_ParseMode :: string
  MessageConfig_ReplyToMessageID :: int

definition NewMessage :: "int \<Rightarrow> string \<Rightarrow> tb_MessageConfig" where
  "NewMessage chatID text = \<lparr>MessageConfig_ChatID = chatID, MessageConfig_Text = text,
     MessageConfig_ParseMode = [], MessageConfig_ReplyToMessageID = 0\<rparr>"

definition ModeMarkdown :: string where
  "ModeMarkdown = ''Markdown''"

definition ModeHTML :: string where
  "ModeHTML = ''HTML''"

definition Second :: int where
  "Second = 1000000000"


section \<open>The listener\<close>

text \<open>
  Errors are values. An error that the transport returns is known by its message
  (\<open>err.Error()\<close>); the listener's own errors wrap such a message, as \<open>fmt.Errorf\<close> with
  \<open>%w\<close> does.
\<close>

datatype error =
    CantSendMessage string string
  | CantGetChat string string
  | FailedToGetChatID string error
  | UpdateChanClosed
  | ContextError string

text \<open>
  The listener's collaborators are interfaces. Each is a function of the calls made to it
  so far and of the present call, and the calls are recorded in the \<open>world\<close>: \<open>sent\<close> holds
  the arguments of \<open>TbAPI.Send\<close>, \<open>saved\<close> those of \<open>MsgLogger.Save\<close>, \<open>dispatched\<close> those of
  \<open>Bots.OnMessage\<close>, oldest first. The fields of the struct that no function of the file
  reads (the terminators, the super users) are left out; \<open>msgs_once\<close> is the \<open>sync.Once\<close>,
  \<open>msgs_ch\<close> the channel with its queued responses, \<open>None\<close> while it is nil.
  Durations are nanoseconds.
\<close>

record world =
  sent :: "tb_MessageConfig list"
  saved :: "bot_Message list"
  dispatched :: "bot_Message list"

record TelegramListener =
  TbAPI_Send :: "tb_MessageConfig list \<Rightarrow> tb_MessageConfig \<Rightarrow> string + tb_Message"
  TbAPI_GetChat :: "string \<Rightarrow> string + int"
  Bots_OnMessage :: "bot_Message list \<Rightarrow> bot_Message \<Rightarrow> bot_Response"
  Group :: string
  Debug :: bool
  IdleDuration :: int
  chatID :: int
  msgs_once :: bool
  msgs_ch :: "bot_Response list option"

definition Send :: "TelegramListener \<Rightarrow> world \<Rightarrow> tb_MessageConfig \<Rightarrow> (string + tb_Message) \<times> world" where
  "Send l w c = (TbAPI_Send l (sent w) c, w\<lparr>sent := sent w @ [c]\<rparr>)"

definition Save :: "world \<Rightarrow> bot_Message \<Rightarrow> world" where
  "Save w msg = w\<lparr>saved := saved w @ [msg]\<rparr>"

definition OnMessage :: "TelegramListener \<Rightarrow> world \<Rightarrow> bot_Message \<Rightarrow> bot_Response \<times> world" where
  "OnMessage l w msg = (Bots_OnMessage l (dispatched w) msg, w\<lparr>dispatched := dispatched w @ [msg]\<rparr>)"

subsection \<open>transform\<close>

definition transformUser :: "tb_User \<Rightarrow> bot_User" where
  "transformUser u = \<lparr>User_ID = tbUser_ID u, User_Username = tbUser_UserName u,
     User_DisplayName = tbUser_FirstName u @ '' '' @ tbUser_LastName u\<rparr>"

definition transformEntities :: "TelegramListener \<Rightarrow> tb_MessageEntity list option \<Rightarrow> bot_Entity list option" where
  "transformEntities l entities =
     (if len entities = 0 then None
      else Some (map (\<lambda>entity.
             \<lparr>Entity_Type = MessageEntity_Type entity,
              Entity_Offset = MessageEntity_Offset entity,
              Entity_Length = MessageEntity_Length entity,
              Entity_URL = MessageEntity_URL entity,
              Entity_User = (case MessageEntity_User entity of
                               None \<Rightarrow> None
                             | Some u \<Rightarrow> Some (transformUser u))\<rparr>)
           (elems entities)))"

definition transform :: "TelegramListener \<Rightarrow> tb_Message \<Rightarrow> panic + bot_Message" where
  "transform l msg =
     (let message = Message_zero\<lparr>Message_ID := tb_MessageID msg, Message_Sent := tb_Time msg,
            Message_Text := tb_Text msg\<rparr>;
          message = (if Chat_ID (tb_Chat msg) \<noteq> 0
                     then message\<lparr>Message_ChatID :=
                            Itoa (Chat_ID (tb_Chat msg)) @ ''_'' @ Itoa (tb_MessageThreadID msg)\<rparr>
                     else message);
          message = (case tb_From msg of
                       None \<Rightarrow> message
                     | Some u \<Rightarrow> message\<lparr>Message_From := transformUser u\<rparr>);
          message = (case tb_SenderChat msg of
                       None \<Rightarrow> message
                     | Some c \<Rightarrow> message\<lparr>Message_SenderChat :=
                          \<lparr>SenderChat_ID = Chat_ID c, SenderChat_UserName = Chat_UserName c\<rparr>\<rparr>)
      in andThen
           (if tb_Entities msg \<noteq> None \<and> len (tb_Entities msg) > 0
            then Inr (message\<lparr>Message_Entities := transformEntities l (tb_Entities msg)\<rparr>)
            else if tb_Photo msg \<noteq> None \<and> len (tb_Photo msg) > 0
            then (let sizes = tb_Photo msg
                  in andThen (index (elems sizes) (len sizes - 1)) (\<lambda>lastSize.
                       Inr (message\<lparr>Message_Image := Some
                              \<lparr>Image_FileID = PhotoSize_FileID lastSize,
                               Image_Width = PhotoSize_Width lastSize,
                               Image_Height = PhotoSize_Height lastSize,
                               Image_Caption = tb_Caption msg,
                               Image_Entities = transformEntities l (tb_CaptionEntities msg)\<rparr>\<rparr>)))
            else Inr message)
           (\<lambda>message.
              Inr (case tb_ReplyToMessage msg of
                     None \<Rightarrow> message
                   | Some r \<Rightarrow>
                       (let replyTo = (Message_ReplyTo message)\<lparr>ReplyTo_Text := tb_Text r,
                              ReplyTo_Sent := tb_Time r\<rparr>;
                            replyTo = (case tb_From r of
                                         None \<Rightarrow> replyTo
                                       | Some u \<Rightarrow> replyTo\<lparr>ReplyTo_From := transformUser u\<rparr>);
                            replyTo = (case tb_SenderChat r of
                                         None \<Rightarrow> replyTo
                                       | Some c \<Rightarrow> replyTo\<lparr>ReplyTo_SenderChat :=
                                            \<lparr>SenderChat_ID = Chat_ID c,
                                             SenderChat_UserName = Chat_UserName c\<rparr>\<rparr>)
                        in message\<lparr>Message_ReplyTo := replyTo\<rparr>))))"

subsection \<open>getBanUsername\<close>

text \<open>
  \<open>update.Message\<close> and \<open>ReplyToMessage\<close> are pointers that the function reads without a
  check; the second operand of \<open>&&\<close> is read only when the user name is still empty.
\<close>

definition getBanUsername :: "bot_Response \<Rightarrow> tb_Update \<Rightarrow> panic + string" where
  "getBanUsername resp update =
     (if Response_ChannelID resp = 0 then Inr (Sprintf_User (Response_User resp))
      else
        (let botChat = \<lparr>SenderChat_ID = Response_ChannelID resp, SenderChat_UserName = []\<rparr>
         in andThen (deref (Update_Message update)) (\<lambda>message.
              let botChat = (case tb_SenderChat message of
                               None \<Rightarrow> botChat
                             | Some c \<Rightarrow> botChat\<lparr>SenderChat_UserName := Chat_UserName c\<rparr>)
              in andThen
                   (if SenderChat_UserName botChat = []
                    then andThen (deref (tb_ReplyToMessage message)) (\<lambda>reply.
                           Inr (case tb_SenderChat reply of
                                  None \<Rightarrow> botChat
                                | Some c \<Rightarrow> botChat\<lparr>SenderChat_UserName := Chat_UserName c\<rparr>))
                    else Inr botChat)
                   (\<lambda>botChat. Inr (Sprintf_SenderChat botChat)))))"

subsection \<open>sendBotResponse and saveBotMessage\<close>

definition saveBotMessage :: "TelegramListener \<Rightarrow> world \<Rightarrow> tb_Message \<Rightarrow> int \<Rightarrow> panic + world" where
  "saveBotMessage l w msg fromChat =
     (if fromChat \<noteq> chatID l then Inr w
      else andThen (transform l msg) (\<lambda>m. Inr (Save w m)))"

text \<open>The outbound message that \<open>sendBotResponse\<close> builds before its first attempt.\<close>

definition tbMsg_of :: "bot_Response \<Rightarrow> int \<Rightarrow> tb_MessageConfig" where
  "tbMsg_of resp chat =
     (let tbMsg = NewMessage chat (Response_Text resp);
          tbMsg = tbMsg\<lparr>MessageConfig_ParseMode := ModeMarkdown\<rparr>;
          tbMsg = (if Response_ParseMode resp \<noteq> []
                   then tbMsg\<lparr>MessageConfig_ParseMode := Response_ParseMode resp\<rparr>
                   else tbMsg)
      in tbMsg\<lparr>MessageConfig_ReplyToMessageID := Response_ReplyTo resp\<rparr>)"

definition sendBotResponse :: "TelegramListener \<Rightarrow> world \<Rightarrow> bot_Response \<Rightarrow> int \<Rightarrow> panic + (error option \<times> world)" where
  "sendBotResponse l w resp chat =
     (if \<not> Response_Send resp then Inr (None, w)
      else
        (let tbMsg = tbMsg_of resp chat;
             (r, w) = Send l w tbMsg;
             (r, w) = (case r of
                         Inr res \<Rightarrow> (r, w)
                       | Inl err \<Rightarrow>
                           if MessageConfig_ParseMode tbMsg = ModeMarkdown \<and>
                              Contains err ''Bad Request: can't parse entities:''
                           then Send l w (tbMsg\<lparr>MessageConfig_ParseMode := []\<rparr>)
                           else (r, w))
         in case r of
              Inl err \<Rightarrow> Inr (Some (CantSendMessage (Response_Text resp) err), w)
            | Inr res \<Rightarrow> andThen (saveBotMessage l w res chat) (\<lambda>w. Inr (None, w))))"

subsection \<open>Submit, SubmitHTML and the lazy initialisation\<close>

text \<open>\<open>l.msgs.once.Do(f)\<close>: \<open>f\<close> runs on the first call only.\<close>

definition once_Do :: "(TelegramListener \<Rightarrow> TelegramListener) \<Rightarrow> TelegramListener \<Rightarrow> TelegramListener" where
  "once_Do f l = (if msgs_once l then l else (f l)\<lparr>msgs_once := True\<rparr>)"

text \<open>
  The \<open>select\<close> of a submission: \<open>ctx\<close> is \<open>ctx.Err()\<close> once the context is done. The send
  case is ready while the channel holds fewer than 100 responses; when both cases are
  ready \<open>pick\<close> is the choice of the runtime, and when none is the call blocks (\<open>None\<close>).
\<close>

definition submit_select :: "TelegramListener \<Rightarrow> string option \<Rightarrow> bool \<Rightarrow> bot_Response \<Rightarrow> (error option \<times> TelegramListener) option" where
  "submit_select l ctx pick resp =
     (let ready = (case msgs_ch l of None \<Rightarrow> False | Some q \<Rightarrow> length q < 100)
      in case ctx of
           Some e \<Rightarrow>
             if ready \<and> pick
             then Some (None, l\<lparr>msgs_ch := Some (elems (msgs_ch l) @ [resp])\<rparr>)
             else Some (Some (ContextError e), l)
         | None \<Rightarrow>
             if ready then Some (None, l\<lparr>msgs_ch := Some (elems (msgs_ch l) @ [resp])\<rparr>)
             else None)"

definition Submit :: "TelegramListener \<Rightarrow> string option \<Rightarrow> bool \<Rightarrow> string \<Rightarrow> bool \<Rightarrow> (error option \<times> TelegramListener) option" where
  "Submit l ctx pick text pin =
     (let l = once_Do (\<lambda>l. l\<lparr>msgs_ch := Some []\<rparr>) l
      in submit_select l ctx pick
           \<lparr>Response_Text = text, Response_Send = True, Response_Pin = pin,
            Response_Preview = True, Response_User = User_zero, Response_ChannelID = 0,
            Response_ReplyTo = 0, Response_ParseMode = []\<rparr>)"

text \<open>\<open>TelegramSupportedHTML\<close> is a function of another library, taken as a parameter.\<close>

definition SubmitHTML :: "(string \<Rightarrow> string) \<Rightarrow> TelegramListener \<Rightarrow> string option \<Rightarrow> bool \<Rightarrow> string \<Rightarrow> bool \<Rightarrow> (error option \<times> TelegramListener) option" where
  "SubmitHTML TelegramSupportedHTML l ctx pick text pin =
     (let text = TelegramSupportedHTML text;
          l = once_Do (\<lambda>l. l\<lparr>msgs_ch := Some []\<rparr>) l
      in submit_select l ctx pick
           \<lparr>Response_Text = text, Response_Send = True, Response_Pin = pin,
            Response_Preview = False, Response_User = User_zero, Response_ChannelID = 0,
            Response_ReplyTo = 0, Response_ParseMode = ModeHTML\<rparr>)"

subsection \<open>Do\<close>

definition getChatID :: "TelegramListener \<Rightarrow> string \<Rightarrow> error + int" where
  "getChatID l groupName =
     (case ParseInt (Group l) of
        Some chat \<Rightarrow> Inr chat
      | None \<Rightarrow>
          (case TbAPI_GetChat l (CHR ''@'' # groupName) of
             Inl err \<Rightarrow> Inl (CantGetChat groupName err)
           | Inr chat \<Rightarrow> Inr chat))"

text \<open>The part of \<open>Do\<close> before its loop.\<close>

definition Do_init :: "TelegramListener \<Rightarrow> error + TelegramListener" where
  "Do_init l =
     (case getChatID l (Group l) of
        Inl getChatErr \<Rightarrow> Inl (FailedToGetChatID (Group l) getChatErr)
      | Inr chat \<Rightarrow>
          Inr (once_Do (\<lambda>l.
                 let l = l\<lparr>msgs_ch := Some []\<rparr>
                 in if IdleDuration l = 0 then l\<lparr>IdleDuration := 30 * Second\<rparr> else l)
               (l\<lparr>chatID := chat\<rparr>)))"

text \<open>
  One iteration of the loop is one case of its \<open>select\<close>; the event says which case the
  runtime took, and what it received. \<open>UpdateReceived u ok\<close> is an update from the updates
  channel, \<open>ok\<close> telling whether \<open>json.Marshal\<close> of its message succeeds; \<open>MsgsReceived\<close>
  takes the oldest response of the submission channel and is not ready while there is
  none; \<open>IdleTimeout\<close> is the timer \<open>time.After(l.IdleDuration)\<close>.
\<close>

datatype event =
    CtxDone string
  | UpdatesClosed
  | UpdateReceived tb_Update bool
  | MsgsReceived
  | IdleTimeout

datatype outcome =
    Continues TelegramListener world
  | Returns error
  | Panics panic
  | NotReady

text \<open>
  An error of \<open>sendBotResponse\<close> is logged and the loop goes on; log lines are not modelled.
\<close>

definition respond :: "TelegramListener \<Rightarrow> world \<Rightarrow> bot_Response \<Rightarrow> int \<Rightarrow> outcome" where
  "respond l w resp chat =
     (case sendBotResponse l w resp chat of
        Inl p \<Rightarrow> Panics p
      | Inr (err, w) \<Rightarrow> Continues l w)"

definition Do_iteration :: "TelegramListener \<Rightarrow> world \<Rightarrow> event \<Rightarrow> outcome" where
  "Do_iteration l w ev =
     (case ev of
        CtxDone e \<Rightarrow> Returns (ContextError e)
      | UpdatesClosed \<Rightarrow> Returns UpdateChanClosed
      | UpdateReceived update ok \<Rightarrow>
          (case Update_Message update of
             None \<Rightarrow> Continues l w
           | Some m \<Rightarrow>
               if \<not> ok then Continues l w
               else if Chat_ID (tb_Chat m) = 0 then Continues l w
               else if Chat_Type (tb_Chat m) = ''private'' then Continues l w
               else
                 (let fromChat = Chat_ID (tb_Chat m)
                  in case transform l m of
                       Inl p \<Rightarrow> Panics p
                     | Inr msg \<Rightarrow>
                         (let w = (if fromChat = chatID l then Save w msg else w);
                              (resp, w) = OnMessage l w msg
                          in respond l w resp fromChat)))
      | MsgsReceived \<Rightarrow>
          (case msgs_ch l of
             Some (resp # rest) \<Rightarrow> respond (l\<lparr>msgs_ch := Some rest\<rparr>) w resp (chatID l)
           | _ \<Rightarrow> NotReady)
      | IdleTimeout \<Rightarrow>
          (let (resp, w) = OnMessage l w (Message_zero\<lparr>Message_Text := ''idle''\<rparr>)
           in respond l w resp (chatID l)))"

text \<open>
  The loop over a trace of events; it stops at the first return or panic, and at an event
  that is not ready. A trace that ends leaves the loop running.
\<close>

fun Do_loop :: "TelegramListener \<Rightarrow> world \<Rightarrow> event list \<Rightarrow> outcome" where
  "Do_loop l w [] = Continues l w"
| "Do_loop l w (ev # evs) =
     (case Do_iteration l w ev of
        Continues l' w' \<Rightarrow> Do_loop l' w' evs
      | r \<Rightarrow> r)"

definition Do :: "TelegramListener \<Rightarrow> world \<Rightarrow> event list \<Rightarrow> outcome" where
  "Do l w evs =
     (case Do_init l of
        Inl err \<Rightarrow> Returns err
      | Inr l \<Rightarrow> Do_loop l w evs)"


section \<open>Concrete inputs\<close>

text \<open>Four messages of two conversations.\<close>

definition msg_a :: bot_Message where
  "msg_a = Message_zero\<lparr>Message_Text := ''a'', Message_ChatID := ''1_0''\<rparr>"

definition msg_b :: bot_Message where
  "msg_b = Message_zero\<lparr>Message_Text := ''b'', Message_ChatID := ''2_0''\<rparr>"

definition msg_c :: bot_Message where
  "msg_c = Message_zero\<lparr>Message_Text := ''c'', Message_ChatID := ''1_0''\<rparr>"

definition msg_d :: bot_Message where
  "msg_d = Message_zero\<lparr>Message_Text := ''d'', Message_ChatID := ''1_0''\<rparr>"

text \<open>A listener whose transport fails and whose bots do not answer, and wire messages.\<close>

definition listener0 :: TelegramListener where
  "listener0 = \<lparr>TbAPI_Send = (\<lambda>calls c. Inl ''Bad Gateway''),
     TbAPI_GetChat = (\<lambda>name. Inl ''chat not found''),
     Bots_OnMessage = (\<lambda>calls msg.
       \<lparr>Response_Text = [], Response_Send = False, Response_Pin = False,
        Response_Preview = False, Response_User = User_zero, Response_ChannelID = 0,
        Response_ReplyTo = 0, Response_ParseMode = []\<rparr>),
     Group = ''100'', Debug = False, IdleDuration = 0, chatID = 100,
     msgs_once = False, msgs_ch = None\<rparr>"

definition chat_zero :: tb_Chat where
  "chat_zero = \<lparr>Chat_ID = 0, Chat_Type = [], Chat_UserName = []\<rparr>"

definition wire_bare :: tb_Message where
  "wire_bare = Message 7 0 None None 1700000000 chat_zero None ''hi'' (Some []) None [] None"

definition bold_span :: tb_MessageEntity where
  "bold_span = \<lparr>MessageEntity_Type = ''bold'', MessageEntity_Offset = 0,
     MessageEntity_Length = 2, MessageEntity_URL = [], MessageEntity_User = None\<rparr>"

definition photo_small :: tb_PhotoSize where
  "photo_small = \<lparr>PhotoSize_FileID = ''small'', PhotoSize_Width = 90, PhotoSize_Height = 60\<rparr>"

definition photo_large :: tb_PhotoSize where
  "photo_large = \<lparr>PhotoSize_FileID = ''large'', PhotoSize_Width = 1280, PhotoSize_Height = 853\<rparr>"

definition wire_both :: tb_Message where
  "wire_both = Message 8 0 None None 1700000000 chat_zero None ''hi'' (Some [bold_span])
     (Some [photo_small, photo_large]) ''cap'' None"

definition wire_photo :: tb_Message where
  "wire_photo = Message 9 0 None None 1700000000 chat_zero None [] None
     (Some [photo_small, photo_large]) ''cap'' None"

text \<open>Responses, a transport that rejects the markup, and one that accepts plain text only.\<close>

definition world0 :: world where
  "world0 = \<lparr>sent = [], saved = [], dispatched = []\<rparr>"

definition parse_error :: string where
  "parse_error = ''Bad Request: can't parse entities: Can't find end of the entity starting at byte offset 5''"

definition resp_pong :: bot_Response where
  "resp_pong = \<lparr>Response_Text = ''pong'', Response_Send = True, Response_Pin = False,
     Response_Preview = False, Response_User = User_zero, Response_ChannelID = 0,
     Response_ReplyTo = 0, Response_ParseMode = []\<rparr>"

definition resp_html :: bot_Response where
  "resp_html = resp_pong\<lparr>Response_ParseMode := ModeHTML\<rparr>"

definition resp_silent :: bot_Response where
  "resp_silent = resp_pong\<lparr>Response_Send := False\<rparr>"

definition sent_message :: "tb_MessageConfig \<Rightarrow> tb_Message" where
  "sent_message c = Message 42 0 None None 1700000000
     \<lparr>Chat_ID = MessageConfig_ChatID c, Chat_Type = ''supergroup'', Chat_UserName = []\<rparr>
     None (MessageConfig_Text c) None None [] None"

definition listener_reject :: TelegramListener where
  "listener_reject = listener0\<lparr>TbAPI_Send := (\<lambda>calls c. Inl parse_error)\<rparr>"

definition listener_md :: TelegramListener where
  "listener_md = listener0\<lparr>
     TbAPI_Send := (\<lambda>calls c.
       if MessageConfig_ParseMode c = ModeMarkdown then Inl parse_error else Inr (sent_message c)),
     Bots_OnMessage := (\<lambda>calls msg. resp_pong)\<rparr>"

text \<open>Histories, and a ban of a channel whose post is not a reply.\<close>

definition history_two :: LimitedMessageHistory_single where
  "history_two = \<lparr>single_limit = 2, single_count = 2, single_messages = [msg_a, msg_b]\<rparr>"

definition history_none :: LimitedMessageHistory_single where
  "history_none = \<lparr>single_limit = 2, single_count = 0, single_messages = []\<rparr>"

definition history_chat :: LimitedMessageHistory where
  "history_chat = \<lparr>limit = 2,
     chats = Some [''1_0'' \<mapsto> \<lparr>ChatHistory_count = 2, ChatHistory_messages = [msg_a, msg_c]\<rparr>]\<rparr>"

definition resp_channel_ban :: bot_Response where
  "resp_channel_ban = \<lparr>Response_Text = ''banned'', Response_Send = True, Response_Pin = False,
     Response_Preview = False, Response_User = User_zero, Response_ChannelID = - 1001234,
     Response_ReplyTo = 0, Response_ParseMode = []\<rparr>"

definition update_channel_post :: tb_Update where
  "update_channel_post = \<lparr>Update_Message = Some (Message 11 0 None
     (Some \<lparr>Chat_ID = - 1001234, Chat_Type = ''channel'', Chat_UserName = []\<rparr>)
     1700000000 \<lparr>Chat_ID = 100, Chat_Type = ''supergroup'', Chat_UserName = []\<rparr>
     None ''spam'' None None [] None)\<rparr>"

section \<open>The bounded history keeps the last messages\<close>


lemma Add_single_messages:
  "single_messages (Add_single l m) =
     (if int (length (single_messages l)) + 1 > single_limit l
      then drop 1 (single_messages l @ [m]) else single_messages l @ [m])"
  by (simp add: Add_single_def Let_def)

lemma Add_single_limit: "single_limit (Add_single l m) = single_limit l"
  by (simp add: Add_single_def Let_def)

lemma window_step:
  assumes "length xs \<le> c"
  shows "drop (length ((if length xs + 1 > c then drop 1 (xs @ [m]) else xs @ [m]) @ ms) - c)
           ((if length xs + 1 > c then drop 1 (xs @ [m]) else xs @ [m]) @ ms)
         = drop (length (xs @ m # ms) - c) (xs @ m # ms)"
proof (cases "length xs + 1 > c")
  case False
  then show ?thesis by simp
next
  case True
  with assms have len: "length xs = c" by simp
  show ?thesis
  proof (cases xs)
    case Nil
    with len True show ?thesis by simp
  next
    case (Cons y ys)
    with len True show ?thesis by auto
  qed
qed

lemma window_step_length:
  "length xs \<le> c \<Longrightarrow>
   length (if length xs + 1 > c then drop 1 (xs @ [m]) else xs @ [m]) \<le> c"
  by (cases xs) auto

lemma AddAll_single_window:
  "0 \<le> single_limit l \<Longrightarrow> length (single_messages l) \<le> nat (single_limit l) \<Longrightarrow>
   single_messages (AddAll_single l ms) =
     drop (length (single_messages l @ ms) - nat (single_limit l)) (single_messages l @ ms)"
proof (induction ms arbitrary: l)
  case Nil
  then show ?case by simp
next
  case (Cons m ms)
  let ?c = "nat (single_limit l)"
  let ?xs = "single_messages l"
  have cond: "(int (length ?xs) + 1 > single_limit l) = (length ?xs + 1 > ?c)"
    using Cons.prems by linarith
  have msgs: "single_messages (Add_single l m) =
      (if length ?xs + 1 > ?c then drop 1 (?xs @ [m]) else ?xs @ [m])"
    by (simp only: Add_single_messages cond)
  have len: "length (single_messages (Add_single l m)) \<le> nat (single_limit (Add_single l m))"
    using Cons.prems by (simp add: msgs Add_single_limit) linarith
  have "single_messages (AddAll_single (Add_single l m) ms) =
      drop (length (single_messages (Add_single l m) @ ms) - ?c) (single_messages (Add_single l m) @ ms)"
    using Cons.IH [of "Add_single l m"] Cons.prems len by (simp add: Add_single_limit)
  also have "\<dots> = drop (length (?xs @ m # ms) - ?c) (?xs @ m # ms)"
    unfolding msgs using window_step [OF Cons.prems(2)] .
  finally show ?case by simp
qed


lemma Add_result:
  assumes "0 \<le> limit l" and "limit l \<le> maxCap" and "chats l \<noteq> None"
  shows "\<exists>l'. Add maxCap l m = Inr l' \<and> limit l' = limit l \<and> chats l' \<noteq> None \<and>
           (\<forall>k. elems (GetMessagesByChatID l' k) =
              (if k = Message_ChatID m
               then (if int (length (elems (GetMessagesByChatID l k))) + 1 > limit l
                     then drop 1 (elems (GetMessagesByChatID l k) @ [m])
                     else elems (GetMessagesByChatID l k) @ [m])
               else elems (GetMessagesByChatID l k)))"
proof -
  from assms(3) obtain f where f: "chats l = Some f" by blast
  show ?thesis
    using assms(1,2)
    by (cases "f (Message_ChatID m)")
       (simp_all add: Add_def andThen_def make_slice_def map_lookup_def map_assign_def f
          GetMessagesByChatID_def elems_def Let_def)
qed

lemma AddAll_window:
  "0 \<le> limit l \<Longrightarrow> (\<forall>k. length (elems (GetMessagesByChatID l k)) \<le> nat (limit l)) \<Longrightarrow>
   limit l \<le> maxCap \<Longrightarrow> chats l \<noteq> None \<Longrightarrow>
   \<exists>l'. AddAll maxCap l ms = Inr l' \<and> limit l' = limit l \<and>
     (\<forall>k. elems (GetMessagesByChatID l' k) =
        drop (length (elems (GetMessagesByChatID l k) @ filter (\<lambda>m. Message_ChatID m = k) ms) - nat (limit l))
          (elems (GetMessagesByChatID l k) @ filter (\<lambda>m. Message_ChatID m = k) ms))"
proof (induction ms arbitrary: l)
  case Nil
  then show ?case by simp
next
  case (Cons m ms)
  let ?c = "nat (limit l)"
  let ?old = "\<lambda>k. elems (GetMessagesByChatID l k)"
  from Add_result [OF Cons.prems(1) Cons.prems(3) Cons.prems(4), of m] obtain l1 where
    add: "Add maxCap l m = Inr l1" and lim: "limit l1 = limit l" and
    nonnil: "chats l1 \<noteq> None" and
    msgs: "\<And>k. elems (GetMessagesByChatID l1 k) =
              (if k = Message_ChatID m
               then (if int (length (?old k)) + 1 > limit l
                     then drop 1 (?old k @ [m]) else ?old k @ [m])
               else ?old k)"
    by blast
  have cond: "\<And>k. (int (length (?old k)) + 1 > limit l) = (length (?old k) + 1 > ?c)"
    using Cons.prems(1) by linarith
  have msgs': "\<And>k. elems (GetMessagesByChatID l1 k) =
              (if k = Message_ChatID m
               then (if length (?old k) + 1 > ?c
                     then drop 1 (?old k @ [m]) else ?old k @ [m])
               else ?old k)"
    by (simp only: msgs cond)
  have bound: "\<forall>k. length (elems (GetMessagesByChatID l1 k)) \<le> nat (limit l1)"
  proof
    fix k
    have le: "length (?old k) \<le> ?c" using Cons.prems(2) by blast
    show "length (elems (GetMessagesByChatID l1 k)) \<le> nat (limit l1)"
    proof (cases "k = Message_ChatID m")
      case True
      have "elems (GetMessagesByChatID l1 k) =
          (if length (?old k) + 1 > ?c then drop 1 (?old k @ [m]) else ?old k @ [m])"
        using msgs' [of k] True by simp
      with window_step_length [OF le, of m] show ?thesis
        unfolding lim by simp
    next
      case False
      then have "elems (GetMessagesByChatID l1 k) = ?old k"
        using msgs' [of k] by simp
      with le show ?thesis by (simp add: lim)
    qed
  qed
  from Cons.IH [of l1] Cons.prems(1) Cons.prems(3) lim bound nonnil obtain l' where
    all: "AddAll maxCap l1 ms = Inr l'" and lim': "limit l' = limit l1" and
    win: "\<And>k. elems (GetMessagesByChatID l' k) =
        drop (length (elems (GetMessagesByChatID l1 k) @ filter (\<lambda>m. Message_ChatID m = k) ms) - nat (limit l1))
          (elems (GetMessagesByChatID l1 k) @ filter (\<lambda>m. Message_ChatID m = k) ms)"
    by auto
  have "\<And>k. elems (GetMessagesByChatID l' k) =
        drop (length (?old k @ filter (\<lambda>m. Message_ChatID m = k) (m # ms)) - ?c)
          (?old k @ filter (\<lambda>m. Message_ChatID m = k) (m # ms))"
  proof -
    fix k
    have le: "length (?old k) \<le> ?c" using Cons.prems(2) by blast
    show "elems (GetMessagesByChatID l' k) =
        drop (length (?old k @ filter (\<lambda>m. Message_ChatID m = k) (m # ms)) - ?c)
          (?old k @ filter (\<lambda>m. Message_ChatID m = k) (m # ms))"
    proof (cases "k = Message_ChatID m")
      case True
      have f: "filter (\<lambda>m. Message_ChatID m = k) (m # ms) = m # filter (\<lambda>m. Message_ChatID m = k) ms"
        using True by simp
      have e: "elems (GetMessagesByChatID l1 k) =
          (if length (?old k) + 1 > ?c then drop 1 (?old k @ [m]) else ?old k @ [m])"
        using msgs' [of k] True by simp
      show ?thesis
        by (simp only: win lim e f window_step [OF le])
    next
      case False
      have f: "filter (\<lambda>m. Message_ChatID m = k) (m # ms) = filter (\<lambda>m. Message_ChatID m = k) ms"
        using False by simp
      have e: "elems (GetMessagesByChatID l1 k) = ?old k"
        using msgs' [of k] False by simp
      show ?thesis
        by (simp only: win lim e f)
    qed
  qed
  with add all lim lim' show ?case by (simp add: andThen_def)
qed


lemma Add_nil_map:
  assumes "0 \<le> limit l" and "limit l \<le> maxCap" and "chats l = None"
  shows "Add maxCap l m = Inl NilMapAssignment"
  using assms
  by (simp add: Add_def andThen_def make_slice_def map_lookup_def map_assign_def Let_def)

lemma Add_single_evicts:
  "single_messages (Add_single l m) = single_messages l @ [m] \<or>
   single_messages (Add_single l m) = drop 1 (single_messages l @ [m])"
  by (simp add: Add_single_messages)

lemma New_single_window:
  assumes "0 \<le> C" and "C \<le> maxCap"
  shows "\<exists>h0. NewLimitedMessageHistory_single maxCap C = Inr h0 \<and>
           single_messages (AddAll_single h0 ms) = drop (length ms - nat C) ms"
proof -
  let ?h0 = "\<lparr>single_limit = C, single_count = 0, single_messages = []\<rparr>"
  have new: "NewLimitedMessageHistory_single maxCap C = Inr ?h0"
    using assms by (simp add: NewLimitedMessageHistory_single_def andThen_def make_slice_def)
  have "single_messages (AddAll_single ?h0 ms) = drop (length ms - nat C) ms"
    using AddAll_single_window [of ?h0 ms] assms by simp
  with new show ?thesis by blast
qed

lemma New_window:
  assumes "0 \<le> C" and "C \<le> maxCap"
  shows "\<exists>h. AddAll maxCap (NewLimitedMessageHistory C) ms = Inr h \<and>
           (\<forall>k. elems (GetMessagesByChatID h k) =
              drop (length (filter (\<lambda>m. Message_ChatID m = k) ms) - nat C)
                (filter (\<lambda>m. Message_ChatID m = k) ms))"
proof -
  have e: "\<And>k. elems (GetMessagesByChatID (NewLimitedMessageHistory C) k) = []"
    by (simp add: NewLimitedMessageHistory_def GetMessagesByChatID_def map_lookup_def elems_def)
  have l: "limit (NewLimitedMessageHistory C) = C" "chats (NewLimitedMessageHistory C) \<noteq> None"
    by (simp_all add: NewLimitedMessageHistory_def)
  from AddAll_window [of "NewLimitedMessageHistory C" maxCap ms] assms
  show ?thesis by (simp add: e l) blast
qed

lemma Add_evicts:
  assumes "0 \<le> limit hp" and "limit hp \<le> maxCap" and "chats hp \<noteq> None"
  shows "\<exists>hp'. Add maxCap hp m = Inr hp' \<and>
          (elems (GetMessagesByChatID hp' (Message_ChatID m)) =
             elems (GetMessagesByChatID hp (Message_ChatID m)) @ [m] \<or>
           elems (GetMessagesByChatID hp' (Message_ChatID m)) =
             drop 1 (elems (GetMessagesByChatID hp (Message_ChatID m)) @ [m])) \<and>
            (\<forall>k. k \<noteq> Message_ChatID m \<longrightarrow>
               elems (GetMessagesByChatID hp' k) = elems (GetMessagesByChatID hp k))"
  using Add_result [OF assms, of m] by auto

text \<open>
  Claim C2, as stated for every capacity \<open>C \<ge> 0\<close>, fails for a capacity that \<open>make\<close>
  does not accept. On a 64-bit platform the allocation limit is \<open>2 ^ 48\<close> bytes, so no
  element type admits a capacity above \<open>2 ^ 48\<close>; with the capacity \<open>2 ^ 62\<close> the
  constructor of the single-sequence variant panics, and so does the first insertion of
  the per-conversation variant: there is no buffer, and nothing is retained.
\<close>

theorem history_capacity_counterexample:
  "(0::int) \<le> 2 ^ 62 \<and>
   NewLimitedMessageHistory_single (2 ^ 48) (2 ^ 62) = Inl MakesliceCapOutOfRange \<and>
   AddAll (2 ^ 48) (NewLimitedMessageHistory (2 ^ 62)) [msg_a] = Inl MakesliceCapOutOfRange"
  by (simp add: NewLimitedMessageHistory_single_def NewLimitedMessageHistory_def Add_def
      andThen_def make_slice_def map_lookup_def)

text \<open>
  Claim C2, amended. For a capacity \<open>C\<close> with \<open>0 \<le> C\<close> that \<open>make\<close> accepts
  (\<open>C \<le> maxCap\<close>) and any sequence \<open>ms\<close> of insertions, one at a time, into a new history,
  the retained messages are the last \<open>min (length ms) C\<close> of \<open>ms\<close> in the order of
  insertion, so never more than \<open>C\<close>; in the per-conversation variant this holds for every
  conversation key \<open>k\<close> and the messages of \<open>ms\<close> with that key. One insertion appends the
  message and evicts at most one entry, the oldest; in the per-conversation variant, for a
  history whose map is allocated, as the constructor builds it, the insertion also leaves
  the other conversations as they were.
\<close>

theorem history_keeps_last_C:
  assumes "0 \<le> C" and "C \<le> maxCap" and "limit hp = C" and "chats hp \<noteq> None"
  shows "(\<exists>h0. NewLimitedMessageHistory_single maxCap C = Inr h0 \<and>
            single_messages (AddAll_single h0 ms) = drop (length ms - nat C) ms \<and>
            length (single_messages (AddAll_single h0 ms)) = min (length ms) (nat C)) \<and>
         (\<exists>h. AddAll maxCap (NewLimitedMessageHistory C) ms = Inr h \<and>
            (\<forall>k. elems (GetMessagesByChatID h k) =
               drop (length (filter (\<lambda>m. Message_ChatID m = k) ms) - nat C)
                 (filter (\<lambda>m. Message_ChatID m = k) ms) \<and>
               length (elems (GetMessagesByChatID h k)) =
                 min (length (filter (\<lambda>m. Message_ChatID m = k) ms)) (nat C))) \<and>
         (single_messages (Add_single l m) = single_messages l @ [m] \<or>
          single_messages (Add_single l m) = drop 1 (single_messages l @ [m])) \<and>
         (\<exists>hp'. Add maxCap hp m = Inr hp' \<and>
            (elems (GetMessagesByChatID hp' (Message_ChatID m)) =
               elems (GetMessagesByChatID hp (Message_ChatID m)) @ [m] \<or>
             elems (GetMessagesByChatID hp' (Message_ChatID m)) =
               drop 1 (elems (GetMessagesByChatID hp (Message_ChatID m)) @ [m])) \<and>
            (\<forall>k. k \<noteq> Message_ChatID m \<longrightarrow>
               elems (GetMessagesByChatID hp' k) = elems (GetMessagesByChatID hp k)))"
proof (intro conjI)
  from New_single_window [OF assms(1) assms(2), of ms] obtain h0 where
    "NewLimitedMessageHistory_single maxCap C = Inr h0"
    "single_messages (AddAll_single h0 ms) = drop (length ms - nat C) ms"
    by blast
  then show "\<exists>h0. NewLimitedMessageHistory_single maxCap C = Inr h0 \<and>
            single_messages (AddAll_single h0 ms) = drop (length ms - nat C) ms \<and>
            length (single_messages (AddAll_single h0 ms)) = min (length ms) (nat C)"
    by auto
next
  from New_window [OF assms(1) assms(2), of ms] obtain h where
    a: "AddAll maxCap (NewLimitedMessageHistory C) ms = Inr h" and
    w: "\<And>k. elems (GetMessagesByChatID h k) =
              drop (length (filter (\<lambda>m. Message_ChatID m = k) ms) - nat C)
                (filter (\<lambda>m. Message_ChatID m = k) ms)"
    by blast
  have "\<And>k. length (elems (GetMessagesByChatID h k)) =
                 min (length (filter (\<lambda>m. Message_ChatID m = k) ms)) (nat C)"
    by (simp only: w length_drop)
  with a w show "\<exists>h. AddAll maxCap (NewLimitedMessageHistory C) ms = Inr h \<and>
            (\<forall>k. elems (GetMessagesByChatID h k) =
               drop (length (filter (\<lambda>m. Message_ChatID m = k) ms) - nat C)
                 (filter (\<lambda>m. Message_ChatID m = k) ms) \<and>
               length (elems (GetMessagesByChatID h k)) =
                 min (length (filter (\<lambda>m. Message_ChatID m = k) ms)) (nat C))"
    by blast
next
  show "single_messages (Add_single l m) = single_messages l @ [m] \<or>
          single_messages (Add_single l m) = drop 1 (single_messages l @ [m])"
    by (rule Add_single_evicts)
next
  show "\<exists>hp'. Add maxCap hp m = Inr hp' \<and>
            (elems (GetMessagesByChatID hp' (Message_ChatID m)) =
               elems (GetMessagesByChatID hp (Message_ChatID m)) @ [m] \<or>
             elems (GetMessagesByChatID hp' (Message_ChatID m)) =
               drop 1 (elems (GetMessagesByChatID hp (Message_ChatID m)) @ [m])) \<and>
            (\<forall>k. k \<noteq> Message_ChatID m \<longrightarrow>
               elems (GetMessagesByChatID hp' k) = elems (GetMessagesByChatID hp k))"
    using Add_evicts [of hp maxCap m] assms by simp
qed


theorem history_keeps_last_C_witness:
  "single_messages (AddAll_single \<lparr>single_limit = 2, single_count = 0, single_messages = []\<rparr>
      [msg_a, msg_b, msg_c, msg_d]) = [msg_c, msg_d] \<and>
   (\<exists>h. AddAll 1000 (NewLimitedMessageHistory 2) [msg_a, msg_b, msg_c, msg_d] = Inr h \<and>
      GetMessagesByChatID h ''1_0'' = Some [msg_c, msg_d] \<and>
      GetMessagesByChatID h ''2_0'' = Some [msg_b] \<and>
      GetMessagesByChatID h ''3_0'' = None)"
proof -
  have c: "(0::int) \<le> 2" "(2::int) \<le> 1000" by simp_all
  have l: "limit (NewLimitedMessageHistory 2) = 2" "chats (NewLimitedMessageHistory 2) \<noteq> None"
    by (simp_all add: NewLimitedMessageHistory_def)
  have n: "NewLimitedMessageHistory_single 1000 2 = Inr \<lparr>single_limit = 2, single_count = 0, single_messages = []\<rparr>"
    by (simp add: NewLimitedMessageHistory_single_def andThen_def make_slice_def)
  have ids: "Message_ChatID msg_a = ''1_0''" "Message_ChatID msg_b = ''2_0''"
    "Message_ChatID msg_c = ''1_0''" "Message_ChatID msg_d = ''1_0''"
    by (simp_all add: msg_a_def msg_b_def msg_c_def msg_d_def)
  from history_keeps_last_C [OF c l, of "[msg_a, msg_b, msg_c, msg_d]"]
  obtain h where
    s: "single_messages (AddAll_single \<lparr>single_limit = 2, single_count = 0, single_messages = []\<rparr>
      [msg_a, msg_b, msg_c, msg_d]) = drop (length [msg_a, msg_b, msg_c, msg_d] - nat 2) [msg_a, msg_b, msg_c, msg_d]"
    and a: "AddAll 1000 (NewLimitedMessageHistory 2) [msg_a, msg_b, msg_c, msg_d] = Inr h"
    and w: "\<And>k. elems (GetMessagesByChatID h k) =
               drop (length (filter (\<lambda>m. Message_ChatID m = k) [msg_a, msg_b, msg_c, msg_d]) - nat 2)
                 (filter (\<lambda>m. Message_ChatID m = k) [msg_a, msg_b, msg_c, msg_d])"
    unfolding n by blast
  have a': "AddAll 1000 (NewLimitedMessageHistory 2) [msg_a, msg_b, msg_c, msg_d] = Inr h \<Longrightarrow>
     GetMessagesByChatID h ''1_0'' = Some [msg_c, msg_d] \<and>
      GetMessagesByChatID h ''2_0'' = Some [msg_b] \<and>
      GetMessagesByChatID h ''3_0'' = None"
    by (auto simp add: NewLimitedMessageHistory_def Add_def andThen_def make_slice_def ids
        map_lookup_def map_assign_def GetMessagesByChatID_def Let_def)
  from s a a' [OF a] show ?thesis by simp
qed

section \<open>transform\<close>

lemma len_pos_not_nil: "len s > 0 \<Longrightarrow> s \<noteq> None"
  by (cases s) (auto simp: len_def)

lemma index_last:
  assumes pos: "len s > 0"
  shows "index (elems s) (len s - 1) = Inr (last (elems s))"
proof (cases s)
  case None
  with pos show ?thesis by (simp add: len_def)
next
  case (Some xs)
  with pos have ne: "xs \<noteq> []" by (auto simp: len_def)
  then have "nat (int (length xs) - 1) = length xs - 1" by simp
  with ne Some show ?thesis
    by (simp add: len_def elems_def index_def last_conv_nth)
qed

lemma transformEntities_not_empty: "transformEntities l es \<noteq> Some []"
  by (cases es) (auto simp: transformEntities_def len_def elems_def)

lemma transformEntities_nil: "len es = 0 \<Longrightarrow> transformEntities l es = None"
  by (simp add: transformEntities_def)

lemma transformEntities_set: "len es > 0 \<Longrightarrow> transformEntities l es \<noteq> None"
  by (simp add: transformEntities_def)

lemma len_nonneg: "0 \<le> len s"
  by (cases s) (auto simp: len_def)

lemma transform_entities_case:
  assumes "len (tb_Entities msg) > 0"
  shows "\<exists>m. transform l msg = Inr m \<and>
           Message_Entities m = transformEntities l (tb_Entities msg) \<and> Message_Image m = None"
  using assms len_pos_not_nil [OF assms]
  by (simp add: transform_def Let_def andThen_def Message_zero_def
      split: option.split)

lemma transform_photo_case:
  assumes "len (tb_Entities msg) = 0" and "len (tb_Photo msg) > 0"
  shows "\<exists>m. transform l msg = Inr m \<and> Message_Entities m = None \<and>
           Message_Image m = Some
             \<lparr>Image_FileID = PhotoSize_FileID (last (elems (tb_Photo msg))),
              Image_Width = PhotoSize_Width (last (elems (tb_Photo msg))),
              Image_Height = PhotoSize_Height (last (elems (tb_Photo msg))),
              Image_Caption = tb_Caption msg,
              Image_Entities = transformEntities l (tb_CaptionEntities msg)\<rparr>"
  using assms len_pos_not_nil [OF assms(2)] index_last [OF assms(2)]
  by (simp add: transform_def Let_def andThen_def Message_zero_def
      split: option.split)

lemma transform_plain_case:
  assumes "len (tb_Entities msg) = 0" and "len (tb_Photo msg) = 0"
  shows "\<exists>m. transform l msg = Inr m \<and> Message_Entities m = None \<and> Message_Image m = None"
  using assms
  by (simp add: transform_def Let_def andThen_def Message_zero_def
      split: option.split)


lemma transform_kinds:
  "(0 < len (tb_Entities msg)) \<or>
   (len (tb_Entities msg) = 0 \<and> 0 < len (tb_Photo msg)) \<or>
   (len (tb_Entities msg) = 0 \<and> len (tb_Photo msg) = 0)"
  using len_nonneg [of "tb_Entities msg"] len_nonneg [of "tb_Photo msg"] by linarith

lemma transform_total: "\<exists>m. transform l msg = Inr m"
  using transform_kinds [of msg] transform_entities_case [of msg l]
    transform_photo_case [of msg l] transform_plain_case [of msg l]
  by blast

lemma transform_fields:
  "\<exists>m. transform l msg = Inr m \<and>
     Message_ID m = tb_MessageID msg \<and>
     Message_Sent m = TimeUnix (tb_Date msg) \<and>
     Message_Text m = tb_Text msg \<and>
     (Chat_ID (tb_Chat msg) = 0 \<longrightarrow> Message_ChatID m = []) \<and>
     (tb_From msg = None \<longrightarrow> Message_From m = User_zero) \<and>
     (tb_SenderChat msg = None \<longrightarrow> Message_SenderChat m = SenderChat_zero) \<and>
     (tb_ReplyToMessage msg = None \<longrightarrow> Message_ReplyTo m = ReplyTo_zero) \<and>
     (\<forall>r. tb_ReplyToMessage msg = Some r \<longrightarrow>
        (tb_From r = None \<longrightarrow> ReplyTo_From (Message_ReplyTo m) = User_zero) \<and>
        (tb_SenderChat r = None \<longrightarrow> ReplyTo_SenderChat (Message_ReplyTo m) = SenderChat_zero))"
proof -
  consider (spans) "0 < len (tb_Entities msg)"
    | (photo) "len (tb_Entities msg) = 0" "0 < len (tb_Photo msg)"
    | (plain) "len (tb_Entities msg) = 0" "len (tb_Photo msg) = 0"
    using transform_kinds [of msg] by blast
  then show ?thesis
  proof cases
    case spans
    then show ?thesis
      using len_pos_not_nil [OF spans]
      by (simp add: transform_def Let_def andThen_def Message_zero_def ReplyTo_zero_def tb_Time_def
          split: option.split)
  next
    case photo
    then show ?thesis
      using len_pos_not_nil [OF photo(2)] index_last [OF photo(2)]
      by (simp add: transform_def Let_def andThen_def Message_zero_def ReplyTo_zero_def tb_Time_def
          split: option.split)
  next
    case plain
    then show ?thesis
      by (simp add: transform_def Let_def andThen_def Message_zero_def ReplyTo_zero_def tb_Time_def
          split: option.split)
  qed
qed

lemma transform_content:
  "\<exists>m. transform l msg = Inr m \<and>
     (0 < len (tb_Entities msg) \<longrightarrow>
        Message_Entities m = transformEntities l (tb_Entities msg) \<and>
        Message_Entities m \<noteq> None \<and> Message_Image m = None) \<and>
     (len (tb_Entities msg) = 0 \<and> 0 < len (tb_Photo msg) \<longrightarrow>
        Message_Entities m = None \<and>
        Message_Image m = Some
          \<lparr>Image_FileID = PhotoSize_FileID (last (elems (tb_Photo msg))),
           Image_Width = PhotoSize_Width (last (elems (tb_Photo msg))),
           Image_Height = PhotoSize_Height (last (elems (tb_Photo msg))),
           Image_Caption = tb_Caption msg,
           Image_Entities = transformEntities l (tb_CaptionEntities msg)\<rparr>) \<and>
     (len (tb_Entities msg) = 0 \<and> len (tb_Photo msg) = 0 \<longrightarrow>
        Message_Entities m = None \<and> Message_Image m = None)"
proof -
  consider (spans) "0 < len (tb_Entities msg)"
    | (photo) "len (tb_Entities msg) = 0" "0 < len (tb_Photo msg)"
    | (plain) "len (tb_Entities msg) = 0" "len (tb_Photo msg) = 0"
    using transform_kinds [of msg] by blast
  then show ?thesis
  proof cases
    case spans
    from transform_entities_case [OF spans, of l] transformEntities_set [OF spans, of l]
    show ?thesis using spans by auto
  next
    case photo
    from transform_photo_case [OF photo, of l] show ?thesis using photo by auto
  next
    case plain
    from transform_plain_case [OF plain, of l] show ?thesis using plain by auto
  qed
qed

text \<open>
  Claim C3. \<open>transform\<close> selects either the spans or the photo. A wire message with
  formatting spans gives a message whose entities are set, from those spans, and whose
  image is unset, whether or not a photo is present. A wire message without spans and with
  a photo gives a message whose entities are unset and whose image is the last entry of
  the photo list, with the caption and the caption entities of the wire message. The
  entities and the image are never both set.
\<close>

theorem transform_either_or:
  "\<exists>m. transform l msg = Inr m \<and>
     (0 < len (tb_Entities msg) \<longrightarrow>
        Message_Entities m = transformEntities l (tb_Entities msg) \<and>
        Message_Entities m \<noteq> None \<and> Message_Image m = None) \<and>
     (len (tb_Entities msg) = 0 \<and> 0 < len (tb_Photo msg) \<longrightarrow>
        Message_Entities m = None \<and>
        Message_Image m = Some
          \<lparr>Image_FileID = PhotoSize_FileID (last (elems (tb_Photo msg))),
           Image_Width = PhotoSize_Width (last (elems (tb_Photo msg))),
           Image_Height = PhotoSize_Height (last (elems (tb_Photo msg))),
           Image_Caption = tb_Caption msg,
           Image_Entities = transformEntities l (tb_CaptionEntities msg)\<rparr>) \<and>
     (Message_Entities m = None \<or> Message_Image m = None)"
proof -
  from transform_content [of l msg] obtain m where
    t: "transform l msg = Inr m" and
    a: "0 < len (tb_Entities msg) \<longrightarrow>
        Message_Entities m = transformEntities l (tb_Entities msg) \<and>
        Message_Entities m \<noteq> None \<and> Message_Image m = None" and
    b: "len (tb_Entities msg) = 0 \<and> 0 < len (tb_Photo msg) \<longrightarrow>
        Message_Entities m = None \<and>
        Message_Image m = Some
          \<lparr>Image_FileID = PhotoSize_FileID (last (elems (tb_Photo msg))),
           Image_Width = PhotoSize_Width (last (elems (tb_Photo msg))),
           Image_Height = PhotoSize_Height (last (elems (tb_Photo msg))),
           Image_Caption = tb_Caption msg,
           Image_Entities = transformEntities l (tb_CaptionEntities msg)\<rparr>" and
    c: "len (tb_Entities msg) = 0 \<and> len (tb_Photo msg) = 0 \<longrightarrow>
        Message_Entities m = None \<and> Message_Image m = None"
    by blast
  have d: "Message_Entities m = None \<or> Message_Image m = None"
  proof -
    consider (spans) "0 < len (tb_Entities msg)"
      | (photo) "len (tb_Entities msg) = 0" "0 < len (tb_Photo msg)"
      | (plain) "len (tb_Entities msg) = 0" "len (tb_Photo msg) = 0"
      using transform_kinds [of msg] by blast
    then show ?thesis
    proof cases
      case spans
      with a show ?thesis by simp
    next
      case photo
      with b show ?thesis by simp
    next
      case plain
      with c show ?thesis by simp
    qed
  qed
  show ?thesis
    by (rule exI [of _ m]) (intro conjI t a b d)
qed

theorem transform_either_or_witness:
  "(\<exists>m. transform listener0 wire_both = Inr m \<and>
      Message_Entities m = Some [\<lparr>Entity_Type = ''bold'', Entity_Offset = 0, Entity_Length = 2,
        Entity_URL = [], Entity_User = None\<rparr>] \<and>
      Message_Image m = None) \<and>
   (\<exists>m. transform listener0 wire_photo = Inr m \<and>
      Message_Entities m = None \<and>
      Message_Image m = Some \<lparr>Image_FileID = ''large'', Image_Width = 1280, Image_Height = 853,
        Image_Caption = ''cap'', Image_Entities = None\<rparr>)"
proof -
  have both: "len (tb_Entities wire_both) = 1"
    "transformEntities listener0 (tb_Entities wire_both) =
       Some [\<lparr>Entity_Type = ''bold'', Entity_Offset = 0, Entity_Length = 2,
        Entity_URL = [], Entity_User = None\<rparr>]"
    by (simp_all add: wire_both_def len_def elems_def transformEntities_def bold_span_def)
  have photo: "len (tb_Entities wire_photo) = 0" "len (tb_Photo wire_photo) = 2"
    "last (elems (tb_Photo wire_photo)) = photo_large" "tb_Caption wire_photo = ''cap''"
    "transformEntities listener0 (tb_CaptionEntities wire_photo) = None"
    by (simp_all add: wire_photo_def len_def elems_def transformEntities_def)
  from transform_either_or [of listener0 wire_both] transform_either_or [of listener0 wire_photo]
  show ?thesis
    by (simp add: both photo photo_large_def) blast
qed

text \<open>
  Claim C9. \<open>transform\<close> returns a message for every wire message. A field of the wire
  message that is absent (zero chat, nil sender, nil sender chat, no spans, no photo, nil
  reply-to message, and nil sender or sender chat of the reply-to message) leaves the field
  of the result at its zero value. The entities of the result, and those of its image, are
  nil or a non-empty list, never an empty list that is not nil.
\<close>

theorem transform_tolerates_absent_fields:
  "\<exists>m. transform l msg = Inr m \<and>
     (Chat_ID (tb_Chat msg) = 0 \<longrightarrow> Message_ChatID m = []) \<and>
     (tb_From msg = None \<longrightarrow> Message_From m = User_zero) \<and>
     (tb_SenderChat msg = None \<longrightarrow> Message_SenderChat m = SenderChat_zero) \<and>
     (len (tb_Entities msg) = 0 \<longrightarrow> Message_Entities m = None) \<and>
     (len (tb_Photo msg) = 0 \<longrightarrow> Message_Image m = None) \<and>
     (tb_ReplyToMessage msg = None \<longrightarrow> Message_ReplyTo m = ReplyTo_zero) \<and>
     (\<forall>r. tb_ReplyToMessage msg = Some r \<longrightarrow>
        (tb_From r = None \<longrightarrow> ReplyTo_From (Message_ReplyTo m) = User_zero) \<and>
        (tb_SenderChat r = None \<longrightarrow> ReplyTo_SenderChat (Message_ReplyTo m) = SenderChat_zero)) \<and>
     Message_Entities m \<noteq> Some [] \<and>
     (\<forall>img. Message_Image m = Some img \<longrightarrow> Image_Entities img \<noteq> Some [])"
proof -
  from transform_fields [of l msg] obtain m where
    t: "transform l msg = Inr m" and
    f1: "Chat_ID (tb_Chat msg) = 0 \<longrightarrow> Message_ChatID m = []" and
    f2: "tb_From msg = None \<longrightarrow> Message_From m = User_zero" and
    f3: "tb_SenderChat msg = None \<longrightarrow> Message_SenderChat m = SenderChat_zero" and
    f4: "tb_ReplyToMessage msg = None \<longrightarrow> Message_ReplyTo m = ReplyTo_zero" and
    f5: "\<forall>r. tb_ReplyToMessage msg = Some r \<longrightarrow>
        (tb_From r = None \<longrightarrow> ReplyTo_From (Message_ReplyTo m) = User_zero) \<and>
        (tb_SenderChat r = None \<longrightarrow> ReplyTo_SenderChat (Message_ReplyTo m) = SenderChat_zero)"
    by (elim exE conjE) (rule that)
  from transform_content [of l msg] obtain m' where
    t': "transform l msg = Inr m'" and
    a': "0 < len (tb_Entities msg) \<longrightarrow>
        Message_Entities m' = transformEntities l (tb_Entities msg) \<and>
        Message_Entities m' \<noteq> None \<and> Message_Image m' = None" and
    b': "len (tb_Entities msg) = 0 \<and> 0 < len (tb_Photo msg) \<longrightarrow>
        Message_Entities m' = None \<and>
        Message_Image m' = Some
          \<lparr>Image_FileID = PhotoSize_FileID (last (elems (tb_Photo msg))),
           Image_Width = PhotoSize_Width (last (elems (tb_Photo msg))),
           Image_Height = PhotoSize_Height (last (elems (tb_Photo msg))),
           Image_Caption = tb_Caption msg,
           Image_Entities = transformEntities l (tb_CaptionEntities msg)\<rparr>" and
    c': "len (tb_Entities msg) = 0 \<and> len (tb_Photo msg) = 0 \<longrightarrow>
        Message_Entities m' = None \<and> Message_Image m' = None"
    by (elim exE conjE) (rule that)
  from t t' have mm: "m' = m" by simp
  note a = a' [unfolded mm] and b = b' [unfolded mm] and c = c' [unfolded mm]
  consider (spans) "0 < len (tb_Entities msg)"
    | (photo) "len (tb_Entities msg) = 0" "0 < len (tb_Photo msg)"
    | (plain) "len (tb_Entities msg) = 0" "len (tb_Photo msg) = 0"
    using transform_kinds [of msg] by blast
  then have k: "(len (tb_Entities msg) = 0 \<longrightarrow> Message_Entities m = None) \<and>
     (len (tb_Photo msg) = 0 \<longrightarrow> Message_Image m = None) \<and>
     Message_Entities m \<noteq> Some [] \<and>
     (\<forall>img. Message_Image m = Some img \<longrightarrow> Image_Entities img \<noteq> Some [])"
  proof cases
    case spans
    with a have "Message_Entities m = transformEntities l (tb_Entities msg)" "Message_Image m = None"
      by simp_all
    with spans transformEntities_not_empty [of l "tb_Entities msg"] show ?thesis by simp
  next
    case photo
    with b have "Message_Entities m = None" 
      "Message_Image m = Some
          \<lparr>Image_FileID = PhotoSize_FileID (last (elems (tb_Photo msg))),
           Image_Width = PhotoSize_Width (last (elems (tb_Photo msg))),
           Image_Height = PhotoSize_Height (last (elems (tb_Photo msg))),
           Image_Caption = tb_Caption msg,
           Image_Entities = transformEntities l (tb_CaptionEntities msg)\<rparr>"
      by simp_all
    with photo transformEntities_not_empty [of l "tb_CaptionEntities msg"] show ?thesis by auto
  next
    case plain
    with c have "Message_Entities m = None" "Message_Image m = None" by simp_all
    with plain show ?thesis by simp
  qed
  note k1 = k [THEN conjunct1]
    and k2 = k [THEN conjunct2, THEN conjunct1]
    and k3 = k [THEN conjunct2, THEN conjunct2, THEN conjunct1]
    and k4 = k [THEN conjunct2, THEN conjunct2, THEN conjunct2]
  show ?thesis
    by (rule exI [of _ m]) (intro conjI t f1 f2 f3 f4 f5 k1 k2 k3 k4)
qed

theorem transform_tolerates_absent_fields_witness:
  "\<exists>m. transform listener0 wire_bare = Inr m \<and>
     Message_ChatID m = [] \<and> Message_From m = User_zero \<and>
     Message_SenderChat m = SenderChat_zero \<and> Message_Entities m = None \<and>
     Message_Image m = None \<and> Message_ReplyTo m = ReplyTo_zero"
proof -
  have w: "Chat_ID (tb_Chat wire_bare) = 0" "tb_From wire_bare = None"
    "tb_SenderChat wire_bare = None" "len (tb_Entities wire_bare) = 0"
    "len (tb_Photo wire_bare) = 0" "tb_ReplyToMessage wire_bare = None"
    by (simp_all add: wire_bare_def chat_zero_def len_def)
  from transform_tolerates_absent_fields [of listener0 wire_bare]
  obtain m where "transform listener0 wire_bare = Inr m"
    and "Chat_ID (tb_Chat wire_bare) = 0 \<longrightarrow> Message_ChatID m = []"
    and "tb_From wire_bare = None \<longrightarrow> Message_From m = User_zero"
    and "tb_SenderChat wire_bare = None \<longrightarrow> Message_SenderChat m = SenderChat_zero"
    and "len (tb_Entities wire_bare) = 0 \<longrightarrow> Message_Entities m = None"
    and "len (tb_Photo wire_bare) = 0 \<longrightarrow> Message_Image m = None"
    and "tb_ReplyToMessage wire_bare = None \<longrightarrow> Message_ReplyTo m = ReplyTo_zero"
    by (elim exE conjE) (rule that)
  with w show ?thesis
    by (intro exI [of _ m]) simp
qed

section \<open>sendBotResponse\<close>

lemma saveBotMessage_result:
  "\<exists>w' m. saveBotMessage l w res chat = Inr w' \<and> transform l res = Inr m \<and>
     sent w' = sent w \<and> dispatched w' = dispatched w \<and>
     saved w' = saved w @ (if chat = chatID l then [m] else [])"
proof -
  from transform_total [of l res] obtain m where t: "transform l res = Inr m" by blast
  show ?thesis
    by (simp add: saveBotMessage_def t andThen_def Save_def)
qed

lemma sendBotResponse_first_ok:
  assumes "Response_Send resp"
    and "TbAPI_Send l (sent w) (tbMsg_of resp chat) = Inr res"
  shows "sendBotResponse l w resp chat =
     andThen (saveBotMessage l (w\<lparr>sent := sent w @ [tbMsg_of resp chat]\<rparr>) res chat)
       (\<lambda>w. Inr (None, w))"
  using assms by (simp add: sendBotResponse_def Send_def Let_def)

lemma sendBotResponse_no_retry:
  assumes "Response_Send resp"
    and "TbAPI_Send l (sent w) (tbMsg_of resp chat) = Inl err"
    and "\<not> (MessageConfig_ParseMode (tbMsg_of resp chat) = ModeMarkdown \<and>
            Contains err ''Bad Request: can't parse entities:'')"
  shows "sendBotResponse l w resp chat =
     Inr (Some (CantSendMessage (Response_Text resp) err),
          w\<lparr>sent := sent w @ [tbMsg_of resp chat]\<rparr>)"
  using assms by (auto simp add: sendBotResponse_def Send_def Let_def)

lemma sendBotResponse_retry:
  assumes "Response_Send resp"
    and "TbAPI_Send l (sent w) (tbMsg_of resp chat) = Inl err"
    and "MessageConfig_ParseMode (tbMsg_of resp chat) = ModeMarkdown"
    and "Contains err ''Bad Request: can't parse entities:''"
  shows "sendBotResponse l w resp chat =
     (case TbAPI_Send l (sent w @ [tbMsg_of resp chat])
             ((tbMsg_of resp chat)\<lparr>MessageConfig_ParseMode := []\<rparr>) of
        Inl err2 \<Rightarrow> Inr (Some (CantSendMessage (Response_Text resp) err2),
           w\<lparr>sent := sent w @ [tbMsg_of resp chat,
                 (tbMsg_of resp chat)\<lparr>MessageConfig_ParseMode := []\<rparr>]\<rparr>)
      | Inr res \<Rightarrow>
          andThen (saveBotMessage l
             (w\<lparr>sent := sent w @ [tbMsg_of resp chat,
                 (tbMsg_of resp chat)\<lparr>MessageConfig_ParseMode := []\<rparr>]\<rparr>) res chat)
            (\<lambda>w. Inr (None, w)))"
  using assms by (simp add: sendBotResponse_def Send_def Let_def split: sum.split)


lemma sendBotResponse_total:
  "\<exists>e w'. sendBotResponse l w resp chat = Inr (e, w') \<and> dispatched w' = dispatched w"
proof (cases "Response_Send resp")
  case False
  then show ?thesis by (simp add: sendBotResponse_def)
next
  case True
  let ?c = "tbMsg_of resp chat"
  let ?p = "?c\<lparr>MessageConfig_ParseMode := []\<rparr>"
  show ?thesis
  proof (cases "TbAPI_Send l (sent w) ?c")
    case (Inr res)
    from saveBotMessage_result [of l "w\<lparr>sent := sent w @ [?c]\<rparr>" res chat]
    show ?thesis
      by (auto simp add: sendBotResponse_first_ok [OF True Inr] andThen_def)
  next
    case (Inl err)
    show ?thesis
    proof (cases "MessageConfig_ParseMode ?c = ModeMarkdown \<and>
            Contains err ''Bad Request: can't parse entities:''")
      case False
      show ?thesis
        by (simp add: sendBotResponse_no_retry [OF True Inl False])
    next
      case retry: True
      then have m: "MessageConfig_ParseMode ?c = ModeMarkdown"
        and c: "Contains err ''Bad Request: can't parse entities:''" by simp_all
      show ?thesis
      proof (cases "TbAPI_Send l (sent w @ [?c]) ?p")
        case (Inl err2)
        show ?thesis
          by (simp add: sendBotResponse_retry [OF True \<open>TbAPI_Send l (sent w) ?c = Inl err\<close> m c] Inl)
      next
        case (Inr res)
        from saveBotMessage_result [of l "w\<lparr>sent := sent w @ [?c, ?p]\<rparr>" res chat]
        show ?thesis
          by (auto simp add: sendBotResponse_retry [OF True \<open>TbAPI_Send l (sent w) ?c = Inl err\<close> m c]
              Inr andThen_def)
      qed
    qed
  qed
qed

lemma parse_error_matches: "Contains parse_error ''Bad Request: can't parse entities:''"
  by (simp add: Contains_def parse_error_def)

lemma bad_gateway_no_match: "\<not> Contains ''Bad Gateway'' ''Bad Request: can't parse entities:''"
  by (simp add: Contains_def sublist_Cons_right)

lemma tbMsg_of_chat: "MessageConfig_ChatID (tbMsg_of resp chat) = chat"
  by (simp add: tbMsg_of_def NewMessage_def Let_def)

lemma tbMsg_of_mode:
  "MessageConfig_ParseMode (tbMsg_of resp chat) =
     (if Response_ParseMode resp = [] then ModeMarkdown else Response_ParseMode resp)"
  by (simp add: tbMsg_of_def Let_def)

text \<open>
  Claim C6. A response whose \<open>Send\<close> flag is false has no effect, whatever its other
  fields: \<open>sendBotResponse\<close> returns nil and leaves the world as it was, with no call of
  the transport's \<open>Send\<close> and none of the logger's \<open>Save\<close>.
\<close>

theorem sendBotResponse_not_sent:
  assumes "\<not> Response_Send resp"
  shows "sendBotResponse l w resp chat = Inr (None, w)"
  using assms by (simp add: sendBotResponse_def)

theorem sendBotResponse_not_sent_witness:
  "sendBotResponse listener_md world0 resp_silent 100 = Inr (None, world0)"
proof -
  have "\<not> Response_Send resp_silent" by (simp add: resp_silent_def)
  then show ?thesis by (rule sendBotResponse_not_sent)
qed

text \<open>
  Claim C1. For a response with \<open>Send\<close> set whose first delivery fails with the error
  message \<open>err\<close>: when the mode used was Markdown (the default, used unless the response
  names another mode) and \<open>err\<close> contains the pattern of the rejected entities, the
  transport is called exactly once more, with the same message and the empty parse mode,
  and the result is that of the second attempt; in every other case the transport is not
  called again, nothing is logged, and the error returned wraps \<open>err\<close>.
\<close>

theorem sendBotResponse_retries_once:
  assumes "Response_Send resp"
    and "TbAPI_Send l (sent w) (tbMsg_of resp chat) = Inl err"
  shows "\<exists>e w'. sendBotResponse l w resp chat = Inr (e, w') \<and>
     MessageConfig_ParseMode (tbMsg_of resp chat) =
       (if Response_ParseMode resp = [] then ModeMarkdown else Response_ParseMode resp) \<and>
     (if MessageConfig_ParseMode (tbMsg_of resp chat) = ModeMarkdown \<and>
         Contains err ''Bad Request: can't parse entities:''
      then sent w' = sent w @ [tbMsg_of resp chat,
             (tbMsg_of resp chat)\<lparr>MessageConfig_ParseMode := []\<rparr>] \<and>
           e = (case TbAPI_Send l (sent w @ [tbMsg_of resp chat])
                       ((tbMsg_of resp chat)\<lparr>MessageConfig_ParseMode := []\<rparr>) of
                  Inl err2 \<Rightarrow> Some (CantSendMessage (Response_Text resp) err2)
                | Inr res \<Rightarrow> None)
      else sent w' = sent w @ [tbMsg_of resp chat] \<and>
           e = Some (CantSendMessage (Response_Text resp) err) \<and>
           saved w' = saved w)"
proof (cases "MessageConfig_ParseMode (tbMsg_of resp chat) = ModeMarkdown \<and>
         Contains err ''Bad Request: can't parse entities:''")
  case False
  show ?thesis
    using False
    by (simp add: sendBotResponse_no_retry [OF assms False] tbMsg_of_mode)
next
  case True
  let ?c = "tbMsg_of resp chat"
  let ?p = "?c\<lparr>MessageConfig_ParseMode := []\<rparr>"
  from True have m: "MessageConfig_ParseMode ?c = ModeMarkdown"
    and c: "Contains err ''Bad Request: can't parse entities:''" by simp_all
  note retry = sendBotResponse_retry [OF assms m c]
  show ?thesis
  proof (cases "TbAPI_Send l (sent w @ [?c]) ?p")
    case (Inl err2)
    show ?thesis
      using True by (simp add: retry Inl tbMsg_of_mode)
  next
    case (Inr res)
    from saveBotMessage_result [of l "w\<lparr>sent := sent w @ [?c, ?p]\<rparr>" res chat]
    obtain w' where s: "saveBotMessage l (w\<lparr>sent := sent w @ [?c, ?p]\<rparr>) res chat = Inr w'"
      and t: "sent w' = sent (w\<lparr>sent := sent w @ [?c, ?p]\<rparr>)"
      by blast
    show ?thesis
      using True t by (simp add: retry Inr s andThen_def tbMsg_of_mode)
  qed
qed

theorem sendBotResponse_retries_once_witness:
  "(\<exists>e w'. sendBotResponse listener_md world0 resp_pong 100 = Inr (e, w') \<and>
      e = None \<and>
      sent w' = [tbMsg_of resp_pong 100, (tbMsg_of resp_pong 100)\<lparr>MessageConfig_ParseMode := []\<rparr>]) \<and>
   (\<exists>e w'. sendBotResponse listener0 world0 resp_pong 100 = Inr (e, w') \<and>
      e = Some (CantSendMessage ''pong'' ''Bad Gateway'') \<and>
      sent w' = [tbMsg_of resp_pong 100] \<and> saved w' = []) \<and>
   (\<exists>e w'. sendBotResponse listener_reject world0 resp_html 100 = Inr (e, w') \<and>
      e = Some (CantSendMessage ''pong'' parse_error) \<and>
      sent w' = [tbMsg_of resp_html 100] \<and> saved w' = [])"
proof -
  have s: "Response_Send resp_pong" "Response_Send resp_html"
    by (simp_all add: resp_pong_def resp_html_def)
  have mp: "MessageConfig_ParseMode (tbMsg_of resp_pong 100) = ModeMarkdown"
    by (simp add: tbMsg_of_mode resp_pong_def)
  have mh: "MessageConfig_ParseMode (tbMsg_of resp_html 100) \<noteq> ModeMarkdown"
    by (simp add: tbMsg_of_mode resp_html_def resp_pong_def ModeHTML_def ModeMarkdown_def)
  have f1: "TbAPI_Send listener_md (sent world0) (tbMsg_of resp_pong 100) = Inl parse_error"
    by (simp add: listener_md_def mp)
  have f1': "TbAPI_Send listener_md [tbMsg_of resp_pong 100]
      ((tbMsg_of resp_pong 100)\<lparr>MessageConfig_ParseMode := []\<rparr>) =
      Inr (sent_message ((tbMsg_of resp_pong 100)\<lparr>MessageConfig_ParseMode := []\<rparr>))"
    by (simp add: listener_md_def ModeMarkdown_def)
  have f2: "TbAPI_Send listener0 (sent world0) (tbMsg_of resp_pong 100) = Inl ''Bad Gateway''"
    by (simp add: listener0_def)
  have f3: "TbAPI_Send listener_reject (sent world0) (tbMsg_of resp_html 100) = Inl parse_error"
    by (simp add: listener_reject_def)
  have t: "Response_Text resp_pong = ''pong''" "Response_Text resp_html = ''pong''"
    by (simp_all add: resp_pong_def resp_html_def)
  have w: "sent world0 = []" "saved world0 = []" by (simp_all add: world0_def)
  from sendBotResponse_retries_once [OF s(1) f1]
  have a: "\<exists>e w'. sendBotResponse listener_md world0 resp_pong 100 = Inr (e, w') \<and>
      e = None \<and>
      sent w' = [tbMsg_of resp_pong 100, (tbMsg_of resp_pong 100)\<lparr>MessageConfig_ParseMode := []\<rparr>]"
    using mp parse_error_matches by (auto simp add: f1' w)
  from sendBotResponse_retries_once [OF s(1) f2]
  have b: "\<exists>e w'. sendBotResponse listener0 world0 resp_pong 100 = Inr (e, w') \<and>
      e = Some (CantSendMessage ''pong'' ''Bad Gateway'') \<and>
      sent w' = [tbMsg_of resp_pong 100] \<and> saved w' = []"
    using bad_gateway_no_match by (auto simp add: w t)
  from sendBotResponse_retries_once [OF s(2) f3]
  have c: "\<exists>e w'. sendBotResponse listener_reject world0 resp_html 100 = Inr (e, w') \<and>
      e = Some (CantSendMessage ''pong'' parse_error) \<and>
      sent w' = [tbMsg_of resp_html 100] \<and> saved w' = []"
    using mh by (auto simp add: w t)
  from a b c show ?thesis by (intro conjI)
qed

text \<open>
  Claim C7. When \<open>sendBotResponse\<close> delivers a response (\<open>Send\<close> set, nil returned), the
  last call of \<open>Send\<close> is addressed to the destination conversation, the message that the
  transport confirmed on it is transformed, and the log gains exactly that transformed
  message when the destination is the listener's own conversation \<open>chatID\<close>, and nothing
  when it is another conversation.
\<close>

theorem delivery_logged_iff_target:
  assumes "Response_Send resp"
    and "sendBotResponse l w resp chat = Inr (None, w')"
  shows "\<exists>res m. sent w' \<noteq> [] \<and>
           MessageConfig_ChatID (last (sent w')) = chat \<and>
           TbAPI_Send l (butlast (sent w')) (last (sent w')) = Inr res \<and>
           transform l res = Inr m \<and>
           saved w' = saved w @ (if chat = chatID l then [m] else [])"
proof -
  let ?c = "tbMsg_of resp chat"
  let ?p = "?c\<lparr>MessageConfig_ParseMode := []\<rparr>"
  show ?thesis
  proof (cases "TbAPI_Send l (sent w) ?c")
    case (Inr res)
    from saveBotMessage_result [of l "w\<lparr>sent := sent w @ [?c]\<rparr>" res chat]
    obtain w1 m where s: "saveBotMessage l (w\<lparr>sent := sent w @ [?c]\<rparr>) res chat = Inr w1"
      and t: "transform l res = Inr m"
      and se: "sent w1 = sent (w\<lparr>sent := sent w @ [?c]\<rparr>)"
      and sa: "saved w1 = saved (w\<lparr>sent := sent w @ [?c]\<rparr>) @ (if chat = chatID l then [m] else [])"
      by blast
    from assms(2) have "w' = w1"
      by (simp add: sendBotResponse_first_ok [OF assms(1) Inr] s andThen_def)
    with se sa t Inr show ?thesis by (simp add: tbMsg_of_chat)
  next
    case (Inl err)
    show ?thesis
    proof (cases "MessageConfig_ParseMode ?c = ModeMarkdown \<and>
            Contains err ''Bad Request: can't parse entities:''")
      case False
      from assms(2) show ?thesis
        by (simp add: sendBotResponse_no_retry [OF assms(1) Inl False])
    next
      case True
      then have m: "MessageConfig_ParseMode ?c = ModeMarkdown"
        and c: "Contains err ''Bad Request: can't parse entities:''" by simp_all
      note retry = sendBotResponse_retry [OF assms(1) Inl m c]
      show ?thesis
      proof (cases "TbAPI_Send l (sent w @ [?c]) ?p")
        case (Inl err2)
        from assms(2) show ?thesis by (simp add: retry Inl)
      next
        case (Inr res)
        from saveBotMessage_result [of l "w\<lparr>sent := sent w @ [?c, ?p]\<rparr>" res chat]
        obtain w1 m where s: "saveBotMessage l (w\<lparr>sent := sent w @ [?c, ?p]\<rparr>) res chat = Inr w1"
          and t: "transform l res = Inr m"
          and se: "sent w1 = sent (w\<lparr>sent := sent w @ [?c, ?p]\<rparr>)"
          and sa: "saved w1 = saved (w\<lparr>sent := sent w @ [?c, ?p]\<rparr>) @ (if chat = chatID l then [m] else [])"
          by blast
        from assms(2) have "w' = w1"
          by (simp add: retry Inr s andThen_def)
        with se sa t Inr show ?thesis by (simp add: butlast_append tbMsg_of_chat)
      qed
    qed
  qed
qed

theorem delivery_logged_iff_target_witness:
  "(\<exists>w' m. sendBotResponse listener_md world0 resp_pong 100 = Inr (None, w') \<and>
      transform listener_md
        (sent_message ((tbMsg_of resp_pong 100)\<lparr>MessageConfig_ParseMode := []\<rparr>)) = Inr m \<and>
      saved w' = [m]) \<and>
   (\<exists>w'. sendBotResponse listener_md world0 resp_pong 555 = Inr (None, w') \<and> saved w' = [])"
proof -
  have s: "Response_Send resp_pong" by (simp add: resp_pong_def)
  have target: "chatID listener_md = 100"
    by (simp add: listener_md_def listener0_def)
  have w: "sent world0 = []" "saved world0 = []" by (simp_all add: world0_def)
  have inst: "\<exists>w1 res m. sendBotResponse listener_md world0 resp_pong c = Inr (None, w1) \<and>
      sent w1 = [tbMsg_of resp_pong c, (tbMsg_of resp_pong c)\<lparr>MessageConfig_ParseMode := []\<rparr>] \<and>
      saved w1 = (if c = 100 then [m] else []) \<and>
      transform listener_md (sent_message ((tbMsg_of resp_pong c)\<lparr>MessageConfig_ParseMode := []\<rparr>)) = Inr m"
    for c
  proof -
    let ?c = "tbMsg_of resp_pong c"
    let ?p = "?c\<lparr>MessageConfig_ParseMode := []\<rparr>"
    have mp: "MessageConfig_ParseMode ?c = ModeMarkdown"
      by (simp add: tbMsg_of_mode resp_pong_def)
    have f1: "TbAPI_Send listener_md (sent world0) ?c = Inl parse_error"
      by (simp add: listener_md_def mp)
    have f2: "TbAPI_Send listener_md (sent world0 @ [?c]) ?p = Inr (sent_message ?p)"
      by (simp add: listener_md_def ModeMarkdown_def)
    from saveBotMessage_result [of listener_md "world0\<lparr>sent := sent world0 @ [?c, ?p]\<rparr>" "sent_message ?p" c]
    obtain w1 m0 where
      sv: "saveBotMessage listener_md (world0\<lparr>sent := sent world0 @ [?c, ?p]\<rparr>) (sent_message ?p) c = Inr w1"
      and se: "sent w1 = sent (world0\<lparr>sent := sent world0 @ [?c, ?p]\<rparr>)"
      by blast
    have h: "sendBotResponse listener_md world0 resp_pong c = Inr (None, w1)"
      by (simp add: sendBotResponse_retry [OF s f1 mp parse_error_matches] f2 sv andThen_def)
    from delivery_logged_iff_target [OF s h] obtain res m where
      l: "TbAPI_Send listener_md (butlast (sent w1)) (last (sent w1)) = Inr res"
      and t: "transform listener_md res = Inr m"
      and sa: "saved w1 = saved world0 @ (if c = chatID listener_md then [m] else [])"
      by blast
    from se have se': "sent w1 = [?c, ?p]" by (simp add: w)
    from l have "res = sent_message ?p"
      using f2 by (simp add: se' w)
    with h t sa se' show ?thesis
      by (auto simp add: target w)
  qed
  from inst [of 100] inst [of 555] show ?thesis
    by auto
qed

section \<open>The idle iteration of the loop\<close>

lemma sendBotResponse_effects:
  "\<exists>e w'. sendBotResponse l w resp chat = Inr (e, w') \<and> dispatched w' = dispatched w \<and>
     (saved w' = saved w \<or> (\<exists>res m. transform l res = Inr m \<and> saved w' = saved w @ [m]))"
proof (cases "Response_Send resp")
  case False
  then show ?thesis by (simp add: sendBotResponse_def)
next
  case True
  let ?c = "tbMsg_of resp chat"
  let ?p = "?c\<lparr>MessageConfig_ParseMode := []\<rparr>"
  have saving: "\<exists>e w'. andThen (saveBotMessage l w0 res chat) (\<lambda>w. Inr (None, w)) = Inr (e, w') \<and>
      dispatched w' = dispatched w \<and>
      (saved w' = saved w \<or> (\<exists>res m. transform l res = Inr m \<and> saved w' = saved w @ [m]))"
    if "dispatched w0 = dispatched w" "saved w0 = saved w" for w0 res
  proof -
    from saveBotMessage_result [of l w0 res chat] obtain w1 m where
      "saveBotMessage l w0 res chat = Inr w1" "transform l res = Inr m"
      "dispatched w1 = dispatched w0"
      "saved w1 = saved w0 @ (if chat = chatID l then [m] else [])"
      by blast
    with that show ?thesis
      by (cases "chat = chatID l") (auto simp add: andThen_def)
  qed
  show ?thesis
  proof (cases "TbAPI_Send l (sent w) ?c")
    case (Inr res)
    show ?thesis
      unfolding sendBotResponse_first_ok [OF True Inr]
      by (rule saving) simp_all
  next
    case (Inl err)
    show ?thesis
    proof (cases "MessageConfig_ParseMode ?c = ModeMarkdown \<and>
            Contains err ''Bad Request: can't parse entities:''")
      case False
      show ?thesis
        by (simp add: sendBotResponse_no_retry [OF True Inl False])
    next
      case retry: True
      then have m: "MessageConfig_ParseMode ?c = ModeMarkdown"
        and c: "Contains err ''Bad Request: can't parse entities:''" by simp_all
      note r = sendBotResponse_retry [OF True Inl m c]
      show ?thesis
      proof (cases "TbAPI_Send l (sent w @ [?c]) ?p")
        case (Inl err2)
        show ?thesis by (simp add: r Inl)
      next
        case (Inr res)
        have "sendBotResponse l w resp chat =
          andThen (saveBotMessage l (w\<lparr>sent := sent w @ [?c, ?p]\<rparr>) res chat) (\<lambda>w. Inr (None, w))"
          by (simp add: r Inr)
        then show ?thesis
          using saving [of "w\<lparr>sent := sent w @ [?c, ?p]\<rparr>" res] by simp
      qed
    qed
  qed
qed

lemma transform_not_idle:
  assumes "transform l res = Inr m"
  shows "m \<noteq> Message_zero\<lparr>Message_Text := ''idle''\<rparr>"
proof -
  from transform_fields [of l res] assms have "Message_Sent m = TimeUnix (tb_Date res)"
    by auto
  then show ?thesis by (auto simp add: Message_zero_def)
qed

text \<open>
  Claim C8. In any state of the loop, the iteration of the idle timeout builds the message
  with the text "idle" and every other field zero (no sender, no sender chat, no image, no
  entities), passes it to the bots, delivers their response to the listener's conversation
  through \<open>sendBotResponse\<close>, and goes on. The log gains nothing, or the one message the
  transport confirmed, transformed; the idle message itself is never among what the
  iteration logs.
\<close>

theorem idle_dispatched_never_saved:
  "\<exists>e w'. Do_iteration l w IdleTimeout = Continues l w' \<and>
     sendBotResponse l (w\<lparr>dispatched := dispatched w @ [Message_zero\<lparr>Message_Text := ''idle''\<rparr>]\<rparr>)
       (Bots_OnMessage l (dispatched w) (Message_zero\<lparr>Message_Text := ''idle''\<rparr>)) (chatID l) = Inr (e, w') \<and>
     dispatched w' = dispatched w @ [Message_zero\<lparr>Message_Text := ''idle''\<rparr>] \<and>
     Message_Text (Message_zero\<lparr>Message_Text := ''idle''\<rparr>) = ''idle'' \<and>
     Message_From (Message_zero\<lparr>Message_Text := ''idle''\<rparr>) = User_zero \<and>
     Message_SenderChat (Message_zero\<lparr>Message_Text := ''idle''\<rparr>) = SenderChat_zero \<and>
     Message_Image (Message_zero\<lparr>Message_Text := ''idle''\<rparr>) = None \<and>
     Message_Entities (Message_zero\<lparr>Message_Text := ''idle''\<rparr>) = None \<and>
     (saved w' = saved w \<or> (\<exists>res m. transform l res = Inr m \<and> saved w' = saved w @ [m])) \<and>
     Message_zero\<lparr>Message_Text := ''idle''\<rparr> \<notin> set (drop (length (saved w)) (saved w'))"
proof -
  let ?idle = "Message_zero\<lparr>Message_Text := ''idle''\<rparr>"
  let ?w1 = "w\<lparr>dispatched := dispatched w @ [?idle]\<rparr>"
  let ?resp = "Bots_OnMessage l (dispatched w) ?idle"
  from sendBotResponse_effects [of l ?w1 ?resp "chatID l"] obtain e w' where
    s: "sendBotResponse l ?w1 ?resp (chatID l) = Inr (e, w')"
    and d: "dispatched w' = dispatched ?w1"
    and sv: "saved w' = saved ?w1 \<or> (\<exists>res m. transform l res = Inr m \<and> saved w' = saved ?w1 @ [m])"
    by blast
  have it: "Do_iteration l w IdleTimeout = Continues l w'"
    by (simp add: Do_iteration_def OnMessage_def respond_def s)
  from sv have sv': "saved w' = saved w \<or> (\<exists>res m. transform l res = Inr m \<and> saved w' = saved w @ [m])"
    by simp
  have ni: "?idle \<notin> set (drop (length (saved w)) (saved w'))"
  proof (cases "saved w' = saved w")
    case True
    then show ?thesis by simp
  next
    case False
    with sv' obtain res m where t: "transform l res = Inr m" and a: "saved w' = saved w @ [m]"
      by (elim disjE exE conjE) simp_all
    from transform_not_idle [OF t] have "?idle \<noteq> m" by (rule not_sym)
    with a show ?thesis by simp
  qed
  have z: "Message_Text ?idle = ''idle''" "Message_From ?idle = User_zero"
    "Message_SenderChat ?idle = SenderChat_zero" "Message_Image ?idle = None"
    "Message_Entities ?idle = None"
    by (simp_all add: Message_zero_def)
  from d have d': "dispatched w' = dispatched w @ [?idle]" by simp
  show ?thesis
    by (rule exI [of _ e], rule exI [of _ w']) (intro conjI it s d' z sv' ni)
qed

theorem idle_dispatched_never_saved_witness:
  "\<exists>w'. Do_iteration listener0 world0 IdleTimeout = Continues listener0 w' \<and>
     dispatched w' = [Message_zero\<lparr>Message_Text := ''idle''\<rparr>] \<and>
     sent w' = [] \<and> saved w' = []"
proof -
  let ?idle = "Message_zero\<lparr>Message_Text := ''idle''\<rparr>"
  have q: "\<not> Response_Send (Bots_OnMessage listener0 (dispatched world0) ?idle)"
    by (simp add: listener0_def)
  from idle_dispatched_never_saved [of listener0 world0] obtain e w' where
    it: "Do_iteration listener0 world0 IdleTimeout = Continues listener0 w'"
    and s: "sendBotResponse listener0 (world0\<lparr>dispatched := dispatched world0 @ [?idle]\<rparr>)
       (Bots_OnMessage listener0 (dispatched world0) ?idle) (chatID listener0) = Inr (e, w')"
    by blast
  from s q have "w' = world0\<lparr>dispatched := dispatched world0 @ [?idle]\<rparr>"
    by (simp add: sendBotResponse_def)
  with it show ?thesis
    by (intro exI [of _ w']) (simp add: world0_def)
qed

section \<open>Random retrieval from the history\<close>

lemma pick_retained:
  assumes "xs \<noteq> []"
  shows "andThen (rand_Intn draw (int (length xs)))
           (\<lambda>randomIndex. andThen (index xs randomIndex) (\<lambda>m. Inr (Some m)))
         = Inr (Some (xs ! nat (draw mod int (length xs))))"
    and "xs ! nat (draw mod int (length xs)) \<in> set xs"
proof -
  from assms have pos: "0 < int (length xs)" by simp
  then have lo: "0 \<le> draw mod int (length xs)" and hi: "draw mod int (length xs) < int (length xs)"
    by simp_all
  from pos lo hi show "andThen (rand_Intn draw (int (length xs)))
           (\<lambda>randomIndex. andThen (index xs randomIndex) (\<lambda>m. Inr (Some m)))
         = Inr (Some (xs ! nat (draw mod int (length xs))))"
    by (simp add: rand_Intn_def andThen_def index_def)
  from lo hi have "nat (draw mod int (length xs)) < length xs" by linarith
  then show "xs ! nat (draw mod int (length xs)) \<in> set xs" by (rule nth_mem)
qed

text \<open>
  Claim C10. \<open>GetRandomMessage\<close> on an empty history returns nil, in the per-conversation
  variant also for a key that has no history, and it never panics; on a history that
  holds messages it returns one of the retained messages, whatever the generator draws.
\<close>

theorem GetRandomMessage_absent_or_retained:
  "(single_messages l = [] \<longrightarrow> GetRandomMessage_single draw l = Inr None) \<and>
   (single_messages l \<noteq> [] \<longrightarrow>
      (\<exists>m. GetRandomMessage_single draw l = Inr (Some m) \<and> m \<in> set (single_messages l))) \<and>
   (map_lookup (chats h) k = None \<longrightarrow> GetRandomMessage draw h k = Inr None) \<and>
   (elems (GetMessagesByChatID h k) = [] \<longrightarrow> GetRandomMessage draw h k = Inr None) \<and>
   (elems (GetMessagesByChatID h k) \<noteq> [] \<longrightarrow>
      (\<exists>m. GetRandomMessage draw h k = Inr (Some m) \<and> m \<in> set (elems (GetMessagesByChatID h k))))"
proof (intro conjI impI)
  assume "single_messages l = []"
  then show "GetRandomMessage_single draw l = Inr None"
    by (simp add: GetRandomMessage_single_def)
next
  assume ne: "single_messages l \<noteq> []"
  from pick_retained [OF ne, of draw]
  show "\<exists>m. GetRandomMessage_single draw l = Inr (Some m) \<and> m \<in> set (single_messages l)"
    using ne by (simp add: GetRandomMessage_single_def)
next
  assume "map_lookup (chats h) k = None"
  then show "GetRandomMessage draw h k = Inr None"
    by (simp add: GetRandomMessage_def)
next
  assume "elems (GetMessagesByChatID h k) = []"
  then show "GetRandomMessage draw h k = Inr None"
    by (cases "map_lookup (chats h) k") (simp_all add: GetRandomMessage_def GetMessagesByChatID_def elems_def)
next
  assume ne: "elems (GetMessagesByChatID h k) \<noteq> []"
  then obtain c where c: "map_lookup (chats h) k = Some c" and ne': "ChatHistory_messages c \<noteq> []"
    by (cases "map_lookup (chats h) k") (simp_all add: GetMessagesByChatID_def elems_def)
  from pick_retained [OF ne', of draw]
  show "\<exists>m. GetRandomMessage draw h k = Inr (Some m) \<and> m \<in> set (elems (GetMessagesByChatID h k))"
    using ne' by (simp add: GetRandomMessage_def GetMessagesByChatID_def elems_def c)
qed

theorem GetRandomMessage_absent_or_retained_witness:
  "GetRandomMessage_single 7 history_none = Inr None \<and>
   GetRandomMessage_single 7 history_two = Inr (Some msg_b) \<and>
   GetRandomMessage 7 history_chat ''9_0'' = Inr None \<and>
   (\<exists>m. GetRandomMessage 7 history_chat ''1_0'' = Inr (Some m) \<and> (m = msg_a \<or> m = msg_c))"
proof -
  have e: "single_messages history_none = []" "single_messages history_two \<noteq> []"
    "map_lookup (chats history_chat) ''9_0'' = None"
    "elems (GetMessagesByChatID history_chat ''1_0'') = [msg_a, msg_c]"
    by (simp_all add: history_none_def history_two_def history_chat_def GetMessagesByChatID_def
        map_lookup_def elems_def)
  have two: "GetRandomMessage_single 7 history_two = Inr (Some msg_b)"
    by (simp add: GetRandomMessage_single_def history_two_def rand_Intn_def andThen_def index_def)
  from GetRandomMessage_absent_or_retained [of history_none 7 history_chat "''9_0''"]
    GetRandomMessage_absent_or_retained [of history_two 7 history_chat "''1_0''"]
  show ?thesis
    using e two by auto
qed

section \<open>The lazy initialisation and the moderation identity\<close>

text \<open>
  Claim C4. The default idle duration of 30 seconds depends on the order of the first
  calls. For a listener whose idle duration is not configured, \<open>Do\<close> called first sets it
  to 30 seconds; \<open>Submit\<close> called first consumes the \<open>sync.Once\<close> with a function that only
  creates the channel, so the function of \<open>Do\<close> does not run and the idle duration of the
  loop stays 0.
\<close>

theorem idle_default_lost_after_Submit:
  "(\<exists>l1 l2. Submit listener0 None False ''news'' False = Some (None, l1) \<and>
      Do_init l1 = Inr l2 \<and> IdleDuration l2 = 0) \<and>
   (\<exists>l1. Do_init listener0 = Inr l1 \<and> IdleDuration l1 = 30 * Second)"
  by (simp add: Submit_def submit_select_def once_Do_def Do_init_def getChatID_def listener0_def
      ParseInt_def digit_of_def Let_def elems_def)

text \<open>
  Claim C5. \<open>getBanUsername\<close> can fail. For a response acting as a channel and an update
  whose message comes from a channel with an empty handle and replies to nothing, it reads
  the sender chat of the nil \<open>ReplyToMessage\<close> and panics.
\<close>

theorem getBanUsername_nil_reply:
  "getBanUsername resp_channel_ban update_channel_post = Inl NilDereference"
  by (simp add: getBanUsername_def resp_channel_ban_def update_channel_post_def deref_def
      andThen_def Let_def)

end
